theory Spec2Isabelle
  imports Main
begin

section \<open>Data model of \<^verbatim>\<open>data_handler.py\<close>\<close>

text \<open>
  The exception classes of \<^verbatim>\<open>data_handler.py\<close> and \<^verbatim>\<open>main.py\<close>, together with the
  exceptions of Python and of the libraries that the code lets escape: \<open>AssertionError\<close>
  (the \<^verbatim>\<open>assert\<close> statements of the endpoints), \<open>ValueError\<close> (\<^verbatim>\<open>bcrypt.checkpw\<close> on a
  malformed hash) and \<open>IntegrityError\<close> (\<^verbatim>\<open>mariadb.IntegrityError\<close>).
\<close>

datatype error =
    GeneralError
  | UserMailExists
  | InvalidEmail
  | TeamFull
  | InvalidTeamId
  | NoSuchTeamMember
  | AuthenticationFailure
  | AssertionError
  | ValueError
  | IntegrityError

record TeamMemberDetails =
  tmd_name :: string
  tmd_email :: string
  tmd_phone_number :: string
  tmd_grade :: string
  tmd_school_name :: string
  tmd_city :: string
  tmd_pin_code :: string
  tmd_team_id :: string

record Team =
  team_id_of :: string
  team_name_of :: string

subsection \<open>The store\<close>

text \<open>
  The four tables the statements of \<^verbatim>\<open>DataHandler\<close> name, each a list of rows in
  insertion order (the order \<^verbatim>\<open>fetchall\<close> returns them in). Every column holds the
  string the code passes to the statement.
\<close>

record user_row =
  u_id :: string
  u_email :: string
  u_password :: string

record team_row =
  t_id :: string
  t_user_id :: string
  t_name :: string

record member_row =
  m_id :: string
  m_team_id :: string
  m_name :: string
  m_email :: string
  m_phone_number :: string
  m_grade :: string
  m_school_name :: string
  m_city :: string
  m_pin_code :: string

record document_row =
  d_id :: string
  d_team_id :: string
  d_path :: string

record database =
  users :: "user_row list"
  teams :: "team_row list"
  team_members :: "member_row list"
  TeamDocument :: "document_row list"

text \<open>The statements \<^verbatim>\<open>cursor.execute\<close> is called with, one name per SQL text.\<close>

datatype statement =
    INSERT_users
  | SELECT_password
  | SELECT_user_id
  | INSERT_teams
  | SELECT_team_owner
  | SELECT_team_exists
  | SELECT_team_member_rows
  | INSERT_team_members
  | SELECT_user_teams
  | SELECT_member_ids
  | SELECT_member_details
  | INSERT_TeamDocument

text \<open>
  The single \<^verbatim>\<open>mariadb.Connection\<close> of the \<^verbatim>\<open>DataHandler\<close>: \<open>session\<close> is the state
  its statements read and write (uncommitted writes included), \<open>committed\<close> the state
  of the last \<^verbatim>\<open>commit()\<close>, and \<open>executed\<close> the statements sent so far, oldest first.
\<close>

record connection =
  session :: database
  committed :: database
  executed :: "statement list"

definition execute :: "statement \<Rightarrow> connection \<Rightarrow> connection" where
  "execute q c = c\<lparr>executed := executed c @ [q]\<rparr>"

definition commit :: "connection \<Rightarrow> connection" where
  "commit c = c\<lparr>committed := session c\<rparr>"

text \<open>
  Modelled from the spec: the schema of the four tables, which is not part of the
  repository. Section 3 and section 6 of the specification require identifiers to be
  unique per table, \<open>users.email\<close> to be unique, \<open>teams.user_id\<close> to be a foreign key
  into \<open>users\<close> and \<open>team_members.team_id\<close> a foreign key into \<open>teams\<close>. An insert that
  breaks one of these is the store's \<^verbatim>\<open>IntegrityError\<close>.
\<close>

definition users_accepts :: "database \<Rightarrow> user_row \<Rightarrow> bool" where
  "users_accepts db r \<longleftrightarrow>
     u_id r \<notin> set (map u_id (users db)) \<and> u_email r \<notin> set (map u_email (users db))"

definition teams_accepts :: "database \<Rightarrow> team_row \<Rightarrow> bool" where
  "teams_accepts db r \<longleftrightarrow>
     t_id r \<notin> set (map t_id (teams db)) \<and> t_user_id r \<in> set (map u_id (users db))"

definition team_members_accepts :: "database \<Rightarrow> member_row \<Rightarrow> bool" where
  "team_members_accepts db r \<longleftrightarrow>
     m_id r \<notin> set (map m_id (team_members db)) \<and> m_team_id r \<in> set (map t_id (teams db))"

definition TeamDocument_accepts :: "database \<Rightarrow> document_row \<Rightarrow> bool" where
  "TeamDocument_accepts db r \<longleftrightarrow> d_id r \<notin> set (map d_id (TeamDocument db))"

subsection \<open>The libraries\<close>

text \<open>
  \<^verbatim>\<open>bcrypt\<close> is a library outside the repository, so its two functions are parameters of
  the model: \<open>hashpw value salt\<close> is the digest, and \<open>checkpw value digest\<close> is \<open>None\<close>
  where the library raises \<^verbatim>\<open>ValueError\<close> (a digest it cannot parse). The salt that
  \<^verbatim>\<open>bcrypt.gensalt()\<close> draws is an argument of the function that calls it.
\<close>

record bcrypt =
  hashpw :: "string \<Rightarrow> string \<Rightarrow> string"
  checkpw :: "string \<Rightarrow> string \<Rightarrow> bool option"

text \<open>Python's \<^verbatim>\<open>str\<close> on a non-negative integer.\<close>

definition digit_char :: "nat \<Rightarrow> char" where
  "digit_char d = ''0123456789'' ! d"

fun str_nat :: "nat \<Rightarrow> string" where
  "str_nat n =
     (if n < 10 then [digit_char n] else str_nat (n div 10) @ [digit_char (n mod 10)])"

declare str_nat.simps [simp del]

text \<open>
  \<^verbatim>\<open>__generate_id\<close>: \<open>rnd\<close> is the value \<^verbatim>\<open>secrets.randbelow(1_000_000 - 100_000)\<close>
  returned.
\<close>

definition generate_id :: "nat \<Rightarrow> string" where
  "generate_id rnd = str_nat (rnd + 100000)"

definition hash_password :: "bcrypt \<Rightarrow> string \<Rightarrow> string \<Rightarrow> string" where
  "hash_password B password salt = hashpw B password salt"

subsection \<open>The methods of \<^verbatim>\<open>DataHandler\<close>\<close>

text \<open>
  Every method takes the connection and returns the connection it leaves, next to its
  result; \<open>Inl e\<close> is the exception \<open>e\<close> leaving the method.
\<close>

definition register_user ::
  "bcrypt \<Rightarrow> connection \<Rightarrow> nat \<Rightarrow> string \<Rightarrow> string \<Rightarrow> string \<Rightarrow> (error + string) \<times> connection"
where
  "register_user B c rnd salt email password =
     (let uid = generate_id rnd;
          hashed = hash_password B password salt;
          row = \<lparr>u_id = uid, u_email = email, u_password = hashed\<rparr>;
          c1 = execute INSERT_users c
      in if users_accepts (session c1) row
         then (Inr uid,
               commit (c1\<lparr>session := (session c1)\<lparr>users := users (session c1) @ [row]\<rparr>\<rparr>))
         else (Inl UserMailExists, c1))"

definition verify_password ::
  "bcrypt \<Rightarrow> connection \<Rightarrow> string \<Rightarrow> string \<Rightarrow> (error + bool) \<times> connection"
where
  "verify_password B c email password =
     (let c1 = execute SELECT_password c;
          hashed_password = map u_password (filter (\<lambda>u. u_email u = email) (users (session c1)))
      in case hashed_password of
           [] \<Rightarrow> (Inl InvalidEmail, c1)
         | h # _ \<Rightarrow>
             (case checkpw B password h of
                None \<Rightarrow> (Inl ValueError, c1)
              | Some ok \<Rightarrow> (Inr ok, c1)))"

definition get_user_id :: "connection \<Rightarrow> string \<Rightarrow> (error + string) \<times> connection" where
  "get_user_id c email =
     (let c1 = execute SELECT_user_id c;
          ids = map u_id (filter (\<lambda>u. u_email u = email) (users (session c1)))
      in case ids of
           [] \<Rightarrow> (Inl InvalidEmail, c1)
         | i # _ \<Rightarrow> (Inr i, c1))"

definition create_team ::
  "connection \<Rightarrow> nat \<Rightarrow> string \<Rightarrow> string \<Rightarrow> (error + string) \<times> connection"
where
  "create_team c rnd uid name =
     (let team_id = generate_id rnd;
          row = \<lparr>t_id = team_id, t_user_id = uid, t_name = name\<rparr>;
          c1 = execute INSERT_teams c
      in if teams_accepts (session c1) row
         then (Inr team_id,
               commit (c1\<lparr>session := (session c1)\<lparr>teams := teams (session c1) @ [row]\<rparr>\<rparr>))
         else (Inl UserMailExists, c1))"

definition get_user_id_for_team :: "connection \<Rightarrow> string \<Rightarrow> (error + string) \<times> connection" where
  "get_user_id_for_team c team_id =
     (let c1 = execute SELECT_team_owner c;
          owners = map t_user_id (filter (\<lambda>t. t_id t = team_id) (teams (session c1)))
      in case owners of
           [] \<Rightarrow> (Inl InvalidTeamId, c1)
         | u # _ \<Rightarrow> (Inr u, c1))"

definition add_team_member ::
  "connection \<Rightarrow> nat \<Rightarrow> string \<Rightarrow> string \<Rightarrow> string \<Rightarrow> string \<Rightarrow> string \<Rightarrow> string \<Rightarrow> string
     \<Rightarrow> string \<Rightarrow> (error + string) \<times> connection"
where
  "add_team_member c rnd team_id name email phone_number grade school_name city pin_code =
     (let member_id = generate_id rnd;
          c1 = execute SELECT_team_exists c;
          response = filter (\<lambda>t. t_id t = team_id) (teams (session c1))
      in if length response = 0 then (Inl InvalidTeamId, c1)
         else
           let c2 = execute SELECT_team_member_rows c1;
               response = length (filter (\<lambda>m. m_team_id m = team_id) (team_members (session c2)))
           in if response \<ge> 4 then (Inl TeamFull, c2)
              else
                let row = \<lparr>m_id = member_id, m_team_id = team_id, m_name = name,
                           m_email = email, m_phone_number = phone_number, m_grade = grade,
                           m_school_name = school_name, m_city = city, m_pin_code = pin_code\<rparr>;
                    c3 = execute INSERT_team_members c2
                in if team_members_accepts (session c3) row
                   then (Inr member_id,
                         commit (c3\<lparr>session :=
                           (session c3)\<lparr>team_members := team_members (session c3) @ [row]\<rparr>\<rparr>))
                   else (Inl IntegrityError, c3))"

definition get_user_teams :: "connection \<Rightarrow> string \<Rightarrow> Team list \<times> connection" where
  "get_user_teams c uid =
     (let c1 = execute SELECT_user_teams c
      in (map (\<lambda>t. \<lparr>team_id_of = t_id t, team_name_of = t_name t\<rparr>)
            (filter (\<lambda>t. t_user_id t = uid) (teams (session c1))), c1))"

definition get_team_members :: "connection \<Rightarrow> string \<Rightarrow> string list \<times> connection" where
  "get_team_members c team_id =
     (let c1 = execute SELECT_member_ids c
      in (map m_id (filter (\<lambda>m. m_team_id m = team_id) (team_members (session c1))), c1))"

definition get_team_member_details ::
  "connection \<Rightarrow> string \<Rightarrow> string \<Rightarrow> (error + TeamMemberDetails) \<times> connection"
where
  "get_team_member_details c team_id team_member_id =
     (let c1 = execute SELECT_member_details c;
          response = filter (\<lambda>m. m_id m = team_member_id \<and> m_team_id m = team_id)
                       (team_members (session c1))
      in case response of
           [] \<Rightarrow> (Inl NoSuchTeamMember, c1)
         | r # _ \<Rightarrow>
             (Inr \<lparr>tmd_name = m_name r, tmd_email = m_email r,
                   tmd_phone_number = m_phone_number r, tmd_grade = m_grade r,
                   tmd_school_name = m_school_name r, tmd_city = m_city r,
                   tmd_pin_code = m_pin_code r, tmd_team_id = m_team_id r\<rparr>, c1))"

text \<open>\<^verbatim>\<open>add_document\<close> inserts and returns without \<^verbatim>\<open>commit()\<close>.\<close>

definition add_document ::
  "connection \<Rightarrow> nat \<Rightarrow> string \<Rightarrow> string \<Rightarrow> (error + string) \<times> connection"
where
  "add_document c rnd team_id path =
     (let doc_id = generate_id rnd;
          row = \<lparr>d_id = doc_id, d_team_id = team_id, d_path = path\<rparr>;
          c1 = execute INSERT_TeamDocument c
      in if TeamDocument_accepts (session c1) row
         then (Inr doc_id,
               c1\<lparr>session := (session c1)\<lparr>TeamDocument := TeamDocument (session c1) @ [row]\<rparr>\<rparr>)
         else (Inl IntegrityError, c1))"

section \<open>The endpoints of \<^verbatim>\<open>main.py\<close>\<close>

record CookiesBase =
  user_id :: string
  hashed_user_id :: string

text \<open>The calls an endpoint makes on its \<^verbatim>\<open>Response\<close> object.\<close>

datatype cookie_action = set_cookie string string | delete_cookie string

text \<open>
  \<^verbatim>\<open>get_id\<close>: a \<^verbatim>\<open>ValueError\<close> of \<^verbatim>\<open>bcrypt.checkpw\<close> and a failed check both become
  \<^verbatim>\<open>AuthenticationFailure\<close>.
\<close>

definition get_id :: "bcrypt \<Rightarrow> CookiesBase \<Rightarrow> error + string" where
  "get_id B cookies =
     (case checkpw B (user_id cookies) (hashed_user_id cookies) of
        None \<Rightarrow> Inl AuthenticationFailure
      | Some correct \<Rightarrow>
          if \<not> correct then Inl AuthenticationFailure else Inr (user_id cookies))"

record GetIdResponse =
  gi_id :: string
  gi_success :: bool

text \<open>\<^verbatim>\<open>get_current_id\<close> calls \<^verbatim>\<open>bcrypt.checkpw\<close> outside any \<^verbatim>\<open>try\<close>.\<close>

definition get_current_id :: "bcrypt \<Rightarrow> CookiesBase \<Rightarrow> error + GetIdResponse" where
  "get_current_id B cookie =
     (case checkpw B (user_id cookie) (hashed_user_id cookie) of
        None \<Rightarrow> Inl ValueError
      | Some correct \<Rightarrow>
          if \<not> correct then Inr \<lparr>gi_id = ''-1'', gi_success = False\<rparr>
          else Inr \<lparr>gi_id = user_id cookie, gi_success = True\<rparr>)"

record RegisterRequest =
  reg_email :: string
  reg_password :: string

record RegisterResponse =
  rr_id :: string
  rr_success :: bool
  rr_email_unique :: bool
  rr_password_acceptable :: bool

text \<open>
  \<^verbatim>\<open>register\<close>: \<open>rnd\<close> is the draw of \<^verbatim>\<open>__generate_id\<close>, \<open>salt_password\<close> and
  \<open>salt_cookie\<close> the two salts \<^verbatim>\<open>bcrypt.gensalt()\<close> returns, in the order of the calls.
\<close>

definition register ::
  "bcrypt \<Rightarrow> connection \<Rightarrow> nat \<Rightarrow> string \<Rightarrow> string \<Rightarrow> RegisterRequest
     \<Rightarrow> (error + RegisterResponse) \<times> cookie_action list \<times> connection"
where
  "register B c rnd salt_password salt_cookie request =
     (if length (reg_password request) < 8
      then (Inr \<lparr>rr_id = ''-1'', rr_success = False, rr_email_unique = True,
                 rr_password_acceptable = False\<rparr>, [], c)
      else
        case register_user B c rnd salt_password (reg_email request) (reg_password request) of
          (Inr uid, c1) \<Rightarrow>
            (Inr \<lparr>rr_id = uid, rr_success = True, rr_email_unique = True,
                  rr_password_acceptable = True\<rparr>,
             [set_cookie ''user_id'' uid,
              set_cookie ''hashed_user_id'' (hashpw B uid salt_cookie)], c1)
        | (Inl e, c1) \<Rightarrow>
            if e = UserMailExists
            then (Inr \<lparr>rr_id = ''-1'', rr_success = False, rr_email_unique = False,
                       rr_password_acceptable = True\<rparr>, [], c1)
            else (Inl e, [], c1))"

record LoginRequest =
  login_email :: string
  login_password :: string

record LoginResponse =
  lr_success :: bool
  lr_email_correct :: bool
  lr_password_correct :: bool

definition login ::
  "bcrypt \<Rightarrow> connection \<Rightarrow> string \<Rightarrow> LoginRequest
     \<Rightarrow> (error + LoginResponse) \<times> cookie_action list \<times> connection"
where
  "login B c salt_cookie request =
     (let invalid_email = \<lparr>lr_success = False, lr_email_correct = False,
                            lr_password_correct = True\<rparr>
      in case verify_password B c (login_email request) (login_password request) of
           (Inl e, c1) \<Rightarrow>
             if e = InvalidEmail then (Inr invalid_email, [], c1) else (Inl e, [], c1)
         | (Inr password_correct, c1) \<Rightarrow>
             if \<not> password_correct
             then (Inr \<lparr>lr_success = False, lr_email_correct = True,
                        lr_password_correct = False\<rparr>, [], c1)
             else
               case get_user_id c1 (login_email request) of
                 (Inl e, c2) \<Rightarrow>
                   if e = InvalidEmail then (Inr invalid_email, [], c2) else (Inl e, [], c2)
               | (Inr uid, c2) \<Rightarrow>
                   (Inr \<lparr>lr_success = True, lr_email_correct = True,
                         lr_password_correct = True\<rparr>,
                    [set_cookie ''user_id'' uid,
                     set_cookie ''hashed_user_id'' (hashpw B uid salt_cookie)], c2))"

definition logout :: "cookie_action list" where
  "logout = [delete_cookie ''user_id'', delete_cookie ''hashed_user_id'']"

record CreateTeamRequest =
  ctq_team_name :: string

text \<open>The field \<^verbatim>\<open>team_id: str|int\<close> of \<^verbatim>\<open>CreateTeamResponse\<close>.\<close>

datatype str_or_int = StrValue string | IntValue int

record CreateTeamResponse =
  ctr_team_id :: str_or_int
  ctr_success :: bool
  ctr_logged_in :: bool

text \<open>
  The endpoint \<^verbatim>\<open>create_team\<close> of \<^verbatim>\<open>main.py\<close>; it calls \<^verbatim>\<open>data_handler.create_team\<close>
  outside any \<^verbatim>\<open>try\<close>.
\<close>

definition create_team_endpoint ::
  "bcrypt \<Rightarrow> connection \<Rightarrow> nat \<Rightarrow> CookiesBase \<Rightarrow> CreateTeamRequest
     \<Rightarrow> (error + CreateTeamResponse) \<times> connection"
where
  "create_team_endpoint B c rnd cookies request =
     (case get_id B cookies of
        Inl e \<Rightarrow>
          if e = AuthenticationFailure
          then (Inr \<lparr>ctr_team_id = IntValue (- 1), ctr_success = False, ctr_logged_in = False\<rparr>, c)
          else (Inl e, c)
      | Inr uid \<Rightarrow>
          (case create_team c rnd uid (ctq_team_name request) of
             (Inl e, c1) \<Rightarrow> (Inl e, c1)
           | (Inr i, c1) \<Rightarrow>
               (Inr \<lparr>ctr_team_id = StrValue i, ctr_success = True, ctr_logged_in = True\<rparr>, c1)))"

record AddTeamMemberRequest =
  atq_team_id :: string
  atq_name :: string
  atq_email :: string
  atq_phone_number :: string
  atq_grade :: string
  atq_school_name :: string
  atq_city :: string
  atq_pin_code :: string

record AddTeamMemberResponse =
  atr_success :: bool
  atr_logged_in :: bool
  atr_space_available :: bool
  atr_team_created :: bool
  atr_user_team_match :: bool

text \<open>The endpoint \<^verbatim>\<open>add_team_member\<close> of \<^verbatim>\<open>main.py\<close>.\<close>

definition add_team_member_endpoint ::
  "bcrypt \<Rightarrow> connection \<Rightarrow> nat \<Rightarrow> CookiesBase \<Rightarrow> AddTeamMemberRequest
     \<Rightarrow> (error + AddTeamMemberResponse) \<times> connection"
where
  "add_team_member_endpoint B c rnd cookies request =
     (case get_id B cookies of
        Inl e \<Rightarrow>
          if e = AuthenticationFailure
          then (Inr \<lparr>atr_success = False, atr_logged_in = False, atr_space_available = True,
                     atr_team_created = True, atr_user_team_match = True\<rparr>, c)
          else (Inl e, c)
      | Inr uid \<Rightarrow>
          (case get_user_id_for_team c (atq_team_id request) of
             (Inl e, c1) \<Rightarrow>
               if e = InvalidTeamId
               then (Inr \<lparr>atr_success = False, atr_logged_in = True,
                          atr_space_available = True, atr_team_created = False,
                          atr_user_team_match = False\<rparr>, c1)
               else if e = AssertionError
               then (Inr \<lparr>atr_success = False, atr_logged_in = True,
                          atr_space_available = True, atr_team_created = True,
                          atr_user_team_match = False\<rparr>, c1)
               else (Inl e, c1)
           | (Inr owner, c1) \<Rightarrow>
               if \<not> (uid = owner)
               then (Inr \<lparr>atr_success = False, atr_logged_in = True,
                          atr_space_available = True, atr_team_created = True,
                          atr_user_team_match = False\<rparr>, c1)
               else
                 (case add_team_member c1 rnd (atq_team_id request) (atq_name request)
                         (atq_email request) (atq_phone_number request) (atq_grade request)
                         (atq_school_name request) (atq_city request) (atq_pin_code request) of
                    (Inr member_id, c2) \<Rightarrow>
                      (Inr \<lparr>atr_success = True, atr_logged_in = True,
                            atr_space_available = True, atr_team_created = True,
                            atr_user_team_match = True\<rparr>, c2)
                  | (Inl e, c2) \<Rightarrow>
                      if e = TeamFull
                      then (Inr \<lparr>atr_success = False, atr_logged_in = True,
                                 atr_space_available = False, atr_team_created = True,
                                 atr_user_team_match = True\<rparr>, c2)
                      else if e = InvalidTeamId
                      then (Inr \<lparr>atr_success = False, atr_logged_in = True,
                                 atr_space_available = False, atr_team_created = False,
                                 atr_user_team_match = True\<rparr>, c2)
                      else (Inl e, c2))))"

record GetTeamsResponse =
  gtr_team_ids :: "Team list"
  gtr_success :: bool
  gtr_logged_in :: bool

definition get_teams ::
  "bcrypt \<Rightarrow> connection \<Rightarrow> CookiesBase \<Rightarrow> (error + GetTeamsResponse) \<times> connection"
where
  "get_teams B c cookies =
     (case get_id B cookies of
        Inl e \<Rightarrow>
          if e = AuthenticationFailure
          then (Inr \<lparr>gtr_team_ids = [], gtr_success = False, gtr_logged_in = False\<rparr>, c)
          else (Inl e, c)
      | Inr uid \<Rightarrow>
          (case get_user_teams c uid of
             (ts, c1) \<Rightarrow>
               (Inr \<lparr>gtr_team_ids = ts, gtr_success = True, gtr_logged_in = True\<rparr>, c1)))"

record GetTeamMemberRequest =
  gmq_team_id :: string

record GetTeamMemberResoponse =
  gmr_team_member_ids :: "string list"
  gmr_success :: bool
  gmr_logged_in :: bool
  gmr_user_team_match :: bool

text \<open>
  The endpoint \<^verbatim>\<open>get_team_members\<close> of \<^verbatim>\<open>main.py\<close>. Its \<^verbatim>\<open>assert\<close> evaluates
  \<^verbatim>\<open>data_handler.get_user_id_for_team(...)\<close> first and \<^verbatim>\<open>get_id(cookies)\<close> second; the
  \<^verbatim>\<open>try\<close> around it handles \<^verbatim>\<open>AuthenticationFailure\<close> and \<^verbatim>\<open>AssertionError\<close> only.
\<close>

definition get_team_members_endpoint ::
  "bcrypt \<Rightarrow> connection \<Rightarrow> CookiesBase \<Rightarrow> GetTeamMemberRequest
     \<Rightarrow> (error + GetTeamMemberResoponse) \<times> connection"
where
  "get_team_members_endpoint B c cookies request =
     (let not_logged_in = \<lparr>gmr_team_member_ids = [], gmr_success = False,
                            gmr_logged_in = False, gmr_user_team_match = True\<rparr>;
          no_match = \<lparr>gmr_team_member_ids = [], gmr_success = False,
                       gmr_logged_in = True, gmr_user_team_match = False\<rparr>;
          handler = (\<lambda>e c'. if e = AuthenticationFailure then (Inr not_logged_in, c')
                             else if e = AssertionError then (Inr no_match, c')
                             else (Inl e, c'))
      in case get_user_id_for_team c (gmq_team_id request) of
           (Inl e, c1) \<Rightarrow> handler e c1
         | (Inr owner, c1) \<Rightarrow>
             (case get_id B cookies of
                Inl e \<Rightarrow> handler e c1
              | Inr uid \<Rightarrow>
                  if \<not> (owner = uid) then handler AssertionError c1
                  else
                    (case get_team_members c1 (gmq_team_id request) of
                       (ids, c2) \<Rightarrow>
                         (Inr \<lparr>gmr_team_member_ids = ids, gmr_success = True,
                               gmr_logged_in = True, gmr_user_team_match = True\<rparr>, c2))))"

record GetTeamMemberDetailsRequest =
  gdq_team_id :: string
  gdq_team_member_id :: string

record GetTeamMemberDeatailsResoponse =
  gdr_team_member_details :: "TeamMemberDetails option"
  gdr_success :: bool
  gdr_logged_in :: bool
  gdr_user_team_match :: bool
  gdr_team_member_exists :: bool

text \<open>The endpoint \<^verbatim>\<open>get_team_member_details\<close> of \<^verbatim>\<open>main.py\<close>, with the same \<^verbatim>\<open>assert\<close>.\<close>

definition get_team_member_details_endpoint ::
  "bcrypt \<Rightarrow> connection \<Rightarrow> CookiesBase \<Rightarrow> GetTeamMemberDetailsRequest
     \<Rightarrow> (error + GetTeamMemberDeatailsResoponse) \<times> connection"
where
  "get_team_member_details_endpoint B c cookies request =
     (let not_logged_in = \<lparr>gdr_team_member_details = None, gdr_success = False,
                            gdr_logged_in = False, gdr_user_team_match = True,
                            gdr_team_member_exists = True\<rparr>;
          no_match = \<lparr>gdr_team_member_details = None, gdr_success = False,
                       gdr_logged_in = True, gdr_user_team_match = False,
                       gdr_team_member_exists = True\<rparr>;
          handler = (\<lambda>e c'. if e = AuthenticationFailure then (Inr not_logged_in, c')
                             else if e = AssertionError then (Inr no_match, c')
                             else (Inl e, c'))
      in case get_user_id_for_team c (gdq_team_id request) of
           (Inl e, c1) \<Rightarrow> handler e c1
         | (Inr owner, c1) \<Rightarrow>
             (case get_id B cookies of
                Inl e \<Rightarrow> handler e c1
              | Inr uid \<Rightarrow>
                  if \<not> (owner = uid) then handler AssertionError c1
                  else
                    (case get_team_member_details c1 (gdq_team_id request)
                            (gdq_team_member_id request) of
                       (Inr details, c2) \<Rightarrow>
                         (Inr \<lparr>gdr_team_member_details = Some details, gdr_success = True,
                               gdr_logged_in = True, gdr_user_team_match = True,
                               gdr_team_member_exists = True\<rparr>, c2)
                     | (Inl e, c2) \<Rightarrow>
                         if e = NoSuchTeamMember
                         then (Inr \<lparr>gdr_team_member_details = None, gdr_success = False,
                                    gdr_logged_in = True, gdr_user_team_match = True,
                                    gdr_team_member_exists = False\<rparr>, c2)
                         else (Inl e, c2))))"

section \<open>Vocabulary of the properties\<close>

definition team_exists :: "database \<Rightarrow> string \<Rightarrow> bool" where
  "team_exists db team_id \<longleftrightarrow> team_id \<in> set (map t_id (teams db))"

definition member_count :: "database \<Rightarrow> string \<Rightarrow> nat" where
  "member_count db team_id = length (filter (\<lambda>m. m_team_id m = team_id) (team_members db))"

text \<open>Two connections hold the same rows, pending and committed.\<close>

definition same_tables :: "connection \<Rightarrow> connection \<Rightarrow> bool" where
  "same_tables c c' \<longleftrightarrow> session c' = session c \<and> committed c' = committed c"

definition capacity_respected :: "connection \<Rightarrow> string \<Rightarrow> bool" where
  "capacity_respected c team_id \<longleftrightarrow>
     member_count (session c) team_id \<le> 4 \<and> member_count (committed c) team_id \<le> 4"

subsection \<open>Sequences of calls on the \<^verbatim>\<open>DataHandler\<close>\<close>

datatype operation =
    Register_user nat string string string
  | Verify_password string string
  | Get_user_id string
  | Create_team nat string string
  | Get_user_id_for_team string
  | Add_team_member nat string string string string string string string string
  | Get_user_teams string
  | Get_team_members string
  | Get_team_member_details string string
  | Add_document nat string string

fun perform :: "bcrypt \<Rightarrow> connection \<Rightarrow> operation \<Rightarrow> connection" where
  "perform B c (Register_user rnd salt email password) =
     snd (register_user B c rnd salt email password)"
| "perform B c (Verify_password email password) = snd (verify_password B c email password)"
| "perform B c (Get_user_id email) = snd (get_user_id c email)"
| "perform B c (Create_team rnd uid name) = snd (create_team c rnd uid name)"
| "perform B c (Get_user_id_for_team team_id) = snd (get_user_id_for_team c team_id)"
| "perform B c (Add_team_member rnd team_id name email phone_number grade school_name city
       pin_code) =
     snd (add_team_member c rnd team_id name email phone_number grade school_name city pin_code)"
| "perform B c (Get_user_teams uid) = snd (get_user_teams c uid)"
| "perform B c (Get_team_members team_id) = snd (get_team_members c team_id)"
| "perform B c (Get_team_member_details team_id team_member_id) =
     snd (get_team_member_details c team_id team_member_id)"
| "perform B c (Add_document rnd team_id path) = snd (add_document c rnd team_id path)"

definition run :: "bcrypt \<Rightarrow> connection \<Rightarrow> operation list \<Rightarrow> connection" where
  "run B c ops = foldl (perform B) c ops"

text \<open>
  Calls of \<^verbatim>\<open>add_team_member\<close> on one team, one after the other: each call is the draw
  of its identifier and the seven member fields; the results are kept in call order.
\<close>

type_synonym member_fields =
  "string \<times> string \<times> string \<times> string \<times> string \<times> string \<times> string"

fun add_team_member_calls ::
  "connection \<Rightarrow> string \<Rightarrow> (nat \<times> member_fields) list \<Rightarrow> (error + string) list \<times> connection"
where
  "add_team_member_calls c team_id [] = ([], c)"
| "add_team_member_calls c team_id
     ((rnd, name, email, phone_number, grade, school_name, city, pin_code) # rest) =
     (let (r, c1) = add_team_member c rnd team_id name email phone_number grade school_name
                      city pin_code;
          (rs, c2) = add_team_member_calls c1 team_id rest
      in (r # rs, c2))"

subsection \<open>The contract of the hashing library\<close>

text \<open>
  What section 4.2 of the specification asks of \<open>SecureHash\<close> and \<open>SecureVerify\<close>, as
  two properties of the library parameter: verification accepts every digest the
  library produced for the value, and it answers \<open>False\<close> for every other value.
\<close>

definition accepts_own_digests :: "bcrypt \<Rightarrow> bool" where
  "accepts_own_digests B \<longleftrightarrow> (\<forall>v salt. checkpw B v (hashpw B v salt) = Some True)"

definition rejects_other_values :: "bcrypt \<Rightarrow> bool" where
  "rejects_other_values B \<longleftrightarrow>
     (\<forall>v v' salt. v' \<noteq> v \<longrightarrow> checkpw B v' (hashpw B v salt) = Some False)"

text \<open>
  An executable instance of the library interface, for evaluating the model at concrete
  inputs. It keeps the two features of \<^verbatim>\<open>bcrypt\<close> the endpoints depend on: the digest
  carries its salt in front (two characters here), and a digest too short to hold a salt
  is refused with \<^verbatim>\<open>ValueError\<close>. It is not a model of the hash function.
\<close>

definition reference_hashpw :: "string \<Rightarrow> string \<Rightarrow> string" where
  "reference_hashpw v salt = take 2 (salt @ ''..'') @ v"

definition reference_checkpw :: "string \<Rightarrow> string \<Rightarrow> bool option" where
  "reference_checkpw v digest = (if length digest < 2 then None else Some (drop 2 digest = v))"

definition reference_bcrypt :: bcrypt where
  "reference_bcrypt = \<lparr>hashpw = reference_hashpw, checkpw = reference_checkpw\<rparr>"

text \<open>
  Two further instances of the library interface, for what released versions of
  \<^verbatim>\<open>bcrypt\<close> do with a value longer than 72 bytes: versions before 5 use its first 72
  bytes only (\<open>truncating_bcrypt\<close>), versions from 5 on raise \<^verbatim>\<open>ValueError\<close> when asked
  to check it (\<open>strict_bcrypt\<close>). Like \<open>reference_bcrypt\<close> they are not models of the
  hash function.
\<close>

definition truncating_hashpw :: "string \<Rightarrow> string \<Rightarrow> string" where
  "truncating_hashpw v salt = take 2 (salt @ ''..'') @ take 72 v"

definition truncating_checkpw :: "string \<Rightarrow> string \<Rightarrow> bool option" where
  "truncating_checkpw v digest =
     (if length digest < 2 then None else Some (drop 2 digest = take 72 v))"

definition truncating_bcrypt :: bcrypt where
  "truncating_bcrypt = \<lparr>hashpw = truncating_hashpw, checkpw = truncating_checkpw\<rparr>"

definition strict_checkpw :: "string \<Rightarrow> string \<Rightarrow> bool option" where
  "strict_checkpw v digest =
     (if length v > 72 \<or> length digest < 2 then None else Some (drop 2 digest = v))"

definition strict_bcrypt :: bcrypt where
  "strict_bcrypt = \<lparr>hashpw = reference_hashpw, checkpw = strict_checkpw\<rparr>"

subsection \<open>Concrete stores and requests\<close>

text \<open>
  One user \<open>100000\<close> (\<open>a@x.com\<close>, password \<open>password1\<close>) who owns the team \<open>100001\<close>,
  without members in \<open>demo_database\<close> and with four members in \<open>full_database\<close>.
\<close>

definition demo_database :: database where
  "demo_database =
     \<lparr>users = [\<lparr>u_id = ''100000'', u_email = ''a@x.com'',
                 u_password = reference_hashpw ''password1'' ''s0''\<rparr>],
      teams = [\<lparr>t_id = ''100001'', t_user_id = ''100000'', t_name = ''Team A''\<rparr>],
      team_members = [],
      TeamDocument = []\<rparr>"

definition demo_connection :: connection where
  "demo_connection = \<lparr>session = demo_database, committed = demo_database, executed = []\<rparr>"

definition full_database :: database where
  "full_database = demo_database\<lparr>team_members :=
     map (\<lambda>i. \<lparr>m_id = i, m_team_id = ''100001'', m_name = ''N'', m_email = ''n@x.com'',
               m_phone_number = ''1'', m_grade = ''9'', m_school_name = ''S'', m_city = ''C'',
               m_pin_code = ''P''\<rparr>) [''100002'', ''100003'', ''100004'', ''100005'']\<rparr>"

definition full_connection :: connection where
  "full_connection = \<lparr>session = full_database, committed = full_database, executed = []\<rparr>"

text \<open>The connection after one member, with the drawn identifier \<open>100002\<close>, joined the team.\<close>

definition one_member_connection :: connection where
  "one_member_connection =
     snd (add_team_member demo_connection 2 ''100001'' ''N'' ''n@x.com'' ''1'' ''9'' ''S'' ''C''
            ''P'')"

definition demo_fields :: member_fields where
  "demo_fields = (''N'', ''n@x.com'', ''1'', ''9'', ''S'', ''C'', ''P'')"

definition demo_operations :: "operation list" where
  "demo_operations =
     [Add_team_member 2 ''100001'' ''N'' ''n@x.com'' ''1'' ''9'' ''S'' ''C'' ''P'',
      Register_user 7 ''s1'' ''b@x.com'' ''password2'',
      Get_team_members ''100001'']"

text \<open>
  Cookies of the owner \<open>100000\<close>, of another user \<open>200000\<close>, both with a digest
  \<open>reference_bcrypt\<close> accepts, and cookies with both fields empty.
\<close>

definition demo_cookies :: CookiesBase where
  "demo_cookies = \<lparr>user_id = ''100000'', hashed_user_id = ''s1100000''\<rparr>"

definition other_cookies :: CookiesBase where
  "other_cookies = \<lparr>user_id = ''200000'', hashed_user_id = ''s1200000''\<rparr>"

definition empty_cookies :: CookiesBase where
  "empty_cookies = \<lparr>user_id = [], hashed_user_id = []\<rparr>"

definition demo_member_request :: AddTeamMemberRequest where
  "demo_member_request =
     \<lparr>atq_team_id = ''100001'', atq_name = ''N'', atq_email = ''n@x.com'',
      atq_phone_number = ''1'', atq_grade = ''9'', atq_school_name = ''S'', atq_city = ''C'',
      atq_pin_code = ''P''\<rparr>"

section \<open>Auxiliary facts\<close>

lemma generate_id_0: "generate_id 0 = ''100000''"
  by (simp add: generate_id_def str_nat.simps digit_char_def)

lemma generate_id_1: "generate_id 1 = ''100001''"
  by (simp add: generate_id_def str_nat.simps digit_char_def)

lemma generate_id_2: "generate_id 2 = ''100002''"
  by (simp add: generate_id_def str_nat.simps digit_char_def)

lemma generate_id_3: "generate_id 3 = ''100003''"
  by (simp add: generate_id_def str_nat.simps digit_char_def)

lemma generate_id_4: "generate_id 4 = ''100004''"
  by (simp add: generate_id_def str_nat.simps digit_char_def)

lemma generate_id_5: "generate_id 5 = ''100005''"
  by (simp add: generate_id_def str_nat.simps digit_char_def)

lemma generate_id_6: "generate_id 6 = ''100006''"
  by (simp add: generate_id_def str_nat.simps digit_char_def)

lemma generate_id_7: "generate_id 7 = ''100007''"
  by (simp add: generate_id_def str_nat.simps digit_char_def)

lemmas generate_id_values = generate_id_0 generate_id_1 generate_id_2 generate_id_3
  generate_id_4 generate_id_5 generate_id_6 generate_id_7

lemma filter_empty_iff_team:
  "(filter (\<lambda>t. t_id t = tid) ts = []) \<longleftrightarrow> tid \<notin> set (map t_id ts)"
  by (induction ts) auto

lemma filter_team_absent:
  "tid \<notin> set (map t_id ts) \<Longrightarrow> filter (\<lambda>t. t_id t = tid) ts = []"
  by (induction ts) auto

lemma filter_email_fresh:
  "email \<notin> set (map u_email us) \<Longrightarrow> filter (\<lambda>u. u_email u = email) us = []"
  by (induction us) auto

subsection \<open>The four outcomes of \<^verbatim>\<open>add_team_member\<close>\<close>

lemma add_team_member_invalid:
  "\<not> team_exists (session c) tid \<Longrightarrow>
   add_team_member c rnd tid n e p g s ci pc = (Inl InvalidTeamId, execute SELECT_team_exists c)"
  by (simp add: add_team_member_def team_exists_def execute_def Let_def filter_empty_iff_team)

lemma add_team_member_full:
  "team_exists (session c) tid \<Longrightarrow> 4 \<le> member_count (session c) tid \<Longrightarrow>
   add_team_member c rnd tid n e p g s ci pc =
     (Inl TeamFull, execute SELECT_team_member_rows (execute SELECT_team_exists c))"
  by (simp add: add_team_member_def team_exists_def member_count_def execute_def Let_def
      filter_empty_iff_team)

lemma add_team_member_inserts:
  "team_exists (session c) tid \<Longrightarrow> member_count (session c) tid < 4 \<Longrightarrow>
   generate_id rnd \<notin> set (map m_id (team_members (session c))) \<Longrightarrow>
   add_team_member c rnd tid n e p g s ci pc =
     (Inr (generate_id rnd),
      \<lparr>session = (session c)\<lparr>team_members := team_members (session c) @
          [\<lparr>m_id = generate_id rnd, m_team_id = tid, m_name = n, m_email = e,
            m_phone_number = p, m_grade = g, m_school_name = s, m_city = ci,
            m_pin_code = pc\<rparr>]\<rparr>,
       committed = (session c)\<lparr>team_members := team_members (session c) @
          [\<lparr>m_id = generate_id rnd, m_team_id = tid, m_name = n, m_email = e,
            m_phone_number = p, m_grade = g, m_school_name = s, m_city = ci,
            m_pin_code = pc\<rparr>]\<rparr>,
       executed = executed c @
          [SELECT_team_exists, SELECT_team_member_rows, INSERT_team_members]\<rparr>)"
  by (simp add: add_team_member_def team_exists_def member_count_def execute_def commit_def
      Let_def filter_empty_iff_team team_members_accepts_def)

text \<open>
  The fourth outcome: the drawn identifier is already a member's. The store refuses the
  row, \<^verbatim>\<open>mariadb.IntegrityError\<close> leaves the method, and nothing is written.
\<close>

lemma add_team_member_rejected:
  "team_exists (session c) tid \<Longrightarrow> member_count (session c) tid < 4 \<Longrightarrow>
   generate_id rnd \<in> set (map m_id (team_members (session c))) \<Longrightarrow>
   add_team_member c rnd tid n e p g s ci pc =
     (Inl IntegrityError,
      execute INSERT_team_members
        (execute SELECT_team_member_rows (execute SELECT_team_exists c)))"
  by (simp add: add_team_member_def team_exists_def member_count_def execute_def commit_def
      Let_def filter_empty_iff_team team_members_accepts_def)

lemma one_member_connection_state:
  "team_exists (session one_member_connection) ''100001'' \<and>
   member_count (session one_member_connection) ''100001'' < 4 \<and>
   generate_id 2 \<in> set (map m_id (team_members (session one_member_connection)))"
  by (simp add: one_member_connection_def team_exists_def member_count_def add_team_member_def
      team_members_accepts_def execute_def commit_def demo_connection_def demo_database_def
      generate_id_values Let_def)

subsection \<open>The capacity invariant\<close>

lemma perform_capacity:
  "capacity_respected c tid \<Longrightarrow> capacity_respected (perform B c op) tid"
proof (cases op)
  case (Add_team_member rnd team_id n e p g s ci pc)
  then show "capacity_respected c tid \<Longrightarrow> ?thesis"
    by (auto simp: capacity_respected_def member_count_def add_team_member_def execute_def
        commit_def Let_def)
qed (auto simp: capacity_respected_def member_count_def register_user_def verify_password_def
      get_user_id_def create_team_def get_user_id_for_team_def get_user_teams_def
      get_team_members_def get_team_member_details_def add_document_def execute_def commit_def
      Let_def split: list.splits option.splits)

lemma run_capacity:
  "capacity_respected c tid \<Longrightarrow> capacity_respected (run B c ops) tid"
  unfolding run_def by (induction ops arbitrary: c) (simp_all add: perform_capacity)

text \<open>
  On a team with \<open>k\<close> members, the first \<open>4 - k\<close> calls insert (their identifiers being
  new) and every later call is refused with \<open>TeamFull\<close>.
\<close>

lemma add_team_member_calls_results:
  assumes "team_exists (session c) tid"
    and "member_count (session c) tid = k" and "k \<le> 4"
    and "distinct (map (generate_id \<circ> fst) (take (4 - k) calls))"
    and "set (map (generate_id \<circ> fst) (take (4 - k) calls)) \<inter>
           set (map m_id (team_members (session c))) = {}"
  shows "fst (add_team_member_calls c tid calls) =
           map (Inr \<circ> generate_id \<circ> fst) (take (4 - k) calls) @
           replicate (length calls - (4 - k)) (Inl TeamFull)
         \<and> member_count (session (snd (add_team_member_calls c tid calls))) tid =
             min 4 (k + length calls)"
  using assms
proof (induction calls arbitrary: c k)
  case Nil
  then show ?case by simp
next
  case (Cons x rest)
  obtain rnd n e p g s ci pc where x: "x = (rnd, n, e, p, g, s, ci, pc)"
    by (cases x) auto
  show ?case
  proof (cases "k < 4")
    case True
    then obtain j where j: "4 - k = Suc j" by (cases "4 - k") auto
    have fresh: "generate_id rnd \<notin> set (map m_id (team_members (session c)))"
      using Cons.prems(5) j x by (auto simp: comp_def)
    let ?row = "\<lparr>m_id = generate_id rnd, m_team_id = tid, m_name = n, m_email = e,
            m_phone_number = p, m_grade = g, m_school_name = s, m_city = ci, m_pin_code = pc\<rparr>"
    let ?db = "(session c)\<lparr>team_members := team_members (session c) @ [?row]\<rparr>"
    let ?c1 = "\<lparr>session = ?db, committed = ?db,
       executed = executed c @ [SELECT_team_exists, SELECT_team_member_rows, INSERT_team_members]\<rparr>"
    have step: "add_team_member c rnd tid n e p g s ci pc = (Inr (generate_id rnd), ?c1)"
      using add_team_member_inserts [OF Cons.prems(1) _ fresh] True Cons.prems(2) by simp
    have ex1: "team_exists (session ?c1) tid"
      using Cons.prems(1) by (simp add: team_exists_def)
    have cnt1: "member_count (session ?c1) tid = Suc k"
      using Cons.prems(2) by (simp add: member_count_def)
    have j': "4 - Suc k = j" using j by simp
    have d1: "distinct (map (generate_id \<circ> fst) (take (4 - Suc k) rest))"
      using Cons.prems(4) j j' by (simp add: comp_def)
    have f1: "set (map (generate_id \<circ> fst) (take (4 - Suc k) rest)) \<inter>
           set (map m_id (team_members (session ?c1))) = {}"
      using Cons.prems(4,5) j j' x by (auto simp: comp_def)
    have k1: "Suc k \<le> 4" using True by simp
    note IH = Cons.IH [OF ex1 cnt1 k1 d1 f1]
    show ?thesis
      using IH j j' x step True by (simp add: split_beta)
  next
    case False
    with Cons.prems(3) have k4: "k = 4" by simp
    have step: "add_team_member c rnd tid n e p g s ci pc =
       (Inl TeamFull, execute SELECT_team_member_rows (execute SELECT_team_exists c))"
      using add_team_member_full [OF Cons.prems(1)] Cons.prems(2) k4 by simp
    let ?c1 = "execute SELECT_team_member_rows (execute SELECT_team_exists c)"
    have s1: "session ?c1 = session c" by (simp add: execute_def)
    have IH: "fst (add_team_member_calls ?c1 tid rest) =
           map (Inr \<circ> generate_id \<circ> fst) (take (4 - k) rest) @
           replicate (length rest - (4 - k)) (Inl TeamFull)
         \<and> member_count (session (snd (add_team_member_calls ?c1 tid rest))) tid =
             min 4 (k + length rest)"
      by (rule Cons.IH) (use Cons.prems k4 s1 in simp_all)
    show ?thesis
      using IH k4 x step by (simp add: split_beta)
  qed
qed

subsection \<open>The reference instance meets the contract\<close>

lemma reference_salt_length: "length (take 2 (salt @ ''..'')) = 2"
  by simp

lemma reference_check_hash:
  "reference_checkpw v' (reference_hashpw v salt) = Some (v = v')"
  using reference_salt_length [of salt]
  by (simp add: reference_hashpw_def reference_checkpw_def del: length_take take_append)

lemma reference_accepts_own: "accepts_own_digests reference_bcrypt"
  by (simp add: accepts_own_digests_def reference_bcrypt_def reference_check_hash)

lemma reference_rejects_others: "rejects_other_values reference_bcrypt"
  by (auto simp: rejects_other_values_def reference_bcrypt_def reference_check_hash)

lemma reference_get_id_demo: "get_id reference_bcrypt demo_cookies = Inr ''100000''"
  by (simp add: get_id_def reference_bcrypt_def reference_checkpw_def demo_cookies_def)

lemma reference_get_id_other: "get_id reference_bcrypt other_cookies = Inr ''200000''"
  by (simp add: get_id_def reference_bcrypt_def reference_checkpw_def other_cookies_def)

lemma reference_get_id_empty:
  "get_id reference_bcrypt empty_cookies = Inl AuthenticationFailure"
  by (simp add: get_id_def reference_bcrypt_def reference_checkpw_def empty_cookies_def)

subsection \<open>Registration and the owner lookup\<close>


lemma register_user_duplicate_email:
  assumes "email \<in> set (map u_email (users (session c)))"
  shows "register_user B c rnd salt email password = (Inl UserMailExists, execute INSERT_users c)"
  using assms by (simp add: register_user_def users_accepts_def execute_def Let_def)

text \<open>
  After a registration that succeeded, \<^verbatim>\<open>verify_password\<close> for the same email hands the
  library the candidate and the digest stored by that registration, and returns its
  answer.
\<close>

lemma verify_password_after_register:
  assumes "register_user B c rnd salt email password = (Inr uid, c1)"
  shows "fst (verify_password B c1 email other) =
           (case checkpw B other (hashpw B password salt) of
              None \<Rightarrow> Inl ValueError | Some ok \<Rightarrow> Inr ok)"
  using assms
  by (auto simp: register_user_def verify_password_def users_accepts_def execute_def commit_def
      hash_password_def Let_def filter_email_fresh split: if_splits option.splits)

lemma get_user_id_for_team_absent:
  "\<not> team_exists (session c) tid \<Longrightarrow>
   get_user_id_for_team c tid = (Inl InvalidTeamId, execute SELECT_team_owner c)"
  by (simp add: get_user_id_for_team_def team_exists_def execute_def Let_def
      filter_team_absent)

lemma get_user_id_for_team_present:
  assumes "team_exists (session c) tid"
  shows "\<exists>owner. get_user_id_for_team c tid = (Inr owner, execute SELECT_team_owner c)"
proof -
  from assms have "filter (\<lambda>t. t_id t = tid) (teams (session c)) \<noteq> []"
    by (simp add: team_exists_def filter_empty_iff_team)
  then show ?thesis
    by (auto simp: get_user_id_for_team_def execute_def Let_def split: list.splits)
qed

lemma get_user_id_for_team_snd:
  "snd (get_user_id_for_team c tid) = execute SELECT_team_owner c"
  by (simp add: get_user_id_for_team_def Let_def split: list.splits)

lemma get_user_id_for_team_same_teams:
  "teams (session c') = teams (session c) \<Longrightarrow>
   fst (get_user_id_for_team c' tid) = fst (get_user_id_for_team c tid)"
  by (simp add: get_user_id_for_team_def execute_def Let_def split: list.splits)

lemma get_id_accepts_iff:
  "get_id B cookies = Inr v \<longleftrightarrow>
     checkpw B (user_id cookies) (hashed_user_id cookies) = Some True \<and> v = user_id cookies"
  by (auto simp: get_id_def split: option.splits)

lemma get_id_fails_iff:
  "get_id B cookies = Inl e \<longleftrightarrow>
     checkpw B (user_id cookies) (hashed_user_id cookies) \<noteq> Some True \<and>
     e = AuthenticationFailure"
  by (auto simp: get_id_def split: option.splits)

subsection \<open>Tokens\<close>

text \<open>
  A digest of the identifier under any salt is accepted as its proof, whenever the
  library accepts its own digests: the proof field is not tied to the salt of the
  issuance.
\<close>

lemma resalted_proof_accepted:
  "accepts_own_digests B \<Longrightarrow>
   get_id B \<lparr>user_id = u, hashed_user_id = hashpw B u salt'\<rparr> = Inr u"
  by (simp add: get_id_def accepts_own_digests_def)

lemma register_issues_token:
  assumes "register B c rnd salt_password salt_cookie request = (Inr resp, cookies, c1)"
    and "rr_success resp"
  shows "cookies = [set_cookie ''user_id'' (rr_id resp),
                    set_cookie ''hashed_user_id'' (hashpw B (rr_id resp) salt_cookie)]"
  using assms
  by (auto simp: register_def split: if_splits prod.splits sum.splits)

lemma login_issues_token:
  assumes "login B c salt_cookie request = (Inr resp, cookies, c1)"
    and "lr_success resp"
  shows "\<exists>uid. cookies = [set_cookie ''user_id'' uid,
                           set_cookie ''hashed_user_id'' (hashpw B uid salt_cookie)]"
  using assms
  by (auto simp: login_def Let_def split: if_splits prod.splits sum.splits)

section \<open>The claims\<close>

text \<open>
  Claim C1, as amended. A team never holds more than four members. Whatever calls are
  made on the \<^verbatim>\<open>DataHandler\<close>, in any number and order and with any draws, a team that
  has at most four member rows (pending and committed) still has at most four
  afterwards. \<^verbatim>\<open>add_team_member\<close> on an existing team with four or more members raises
  \<open>TeamFull\<close> and leaves every table as it was. Five calls in a row on an existing team
  without members return four identifiers and then \<open>TeamFull\<close>, and leave four members,
  when the first four draws are distinct and not yet a member's identifier. A call on a
  team that is not full whose draw is already a member's identifier fails with the
  store's \<open>IntegrityError\<close> and writes nothing.
\<close>

theorem team_member_count_bounded:
  "(capacity_respected c tid \<longrightarrow> capacity_respected (run B c ops) tid) \<and>
   (team_exists (session c) tid \<and> 4 \<le> member_count (session c) tid \<longrightarrow>
      fst (add_team_member c rnd tid n e p g s ci pc) = Inl TeamFull \<and>
      same_tables c (snd (add_team_member c rnd tid n e p g s ci pc))) \<and>
   (team_exists (session c) tid \<and> member_count (session c) tid = 0 \<and>
    distinct (map generate_id [r1, r2, r3, r4]) \<and>
    set (map generate_id [r1, r2, r3, r4]) \<inter> set (map m_id (team_members (session c))) = {}
    \<longrightarrow>
      fst (add_team_member_calls c tid [(r1, f1), (r2, f2), (r3, f3), (r4, f4), (r5, f5)]) =
        [Inr (generate_id r1), Inr (generate_id r2), Inr (generate_id r3),
         Inr (generate_id r4), Inl TeamFull] \<and>
      member_count
        (session (snd (add_team_member_calls c tid
           [(r1, f1), (r2, f2), (r3, f3), (r4, f4), (r5, f5)]))) tid = 4) \<and>
   (team_exists (session c) tid \<and> member_count (session c) tid < 4 \<and>
    generate_id rnd \<in> set (map m_id (team_members (session c))) \<longrightarrow>
      fst (add_team_member c rnd tid n e p g s ci pc) = Inl IntegrityError \<and>
      same_tables c (snd (add_team_member c rnd tid n e p g s ci pc)))"
proof (intro conjI impI)
  assume "capacity_respected c tid"
  then show "capacity_respected (run B c ops) tid" by (rule run_capacity)
next
  assume a: "team_exists (session c) tid \<and> 4 \<le> member_count (session c) tid"
  then have full: "add_team_member c rnd tid n e p g s ci pc =
      (Inl TeamFull, execute SELECT_team_member_rows (execute SELECT_team_exists c))"
    by (simp add: add_team_member_full)
  show "fst (add_team_member c rnd tid n e p g s ci pc) = Inl TeamFull"
    by (simp add: full)
  show "same_tables c (snd (add_team_member c rnd tid n e p g s ci pc))"
    by (simp add: full same_tables_def execute_def)
next
  let ?calls = "[(r1, f1), (r2, f2), (r3, f3), (r4, f4), (r5, f5)]"
  assume a: "team_exists (session c) tid \<and> member_count (session c) tid = 0 \<and>
    distinct (map generate_id [r1, r2, r3, r4]) \<and>
    set (map generate_id [r1, r2, r3, r4]) \<inter> set (map m_id (team_members (session c))) = {}"
  have r: "fst (add_team_member_calls c tid ?calls) =
           map (Inr \<circ> generate_id \<circ> fst) (take (4 - 0) ?calls) @
           replicate (length ?calls - (4 - 0)) (Inl TeamFull)
         \<and> member_count (session (snd (add_team_member_calls c tid ?calls))) tid =
             min 4 (0 + length ?calls)"
    by (rule add_team_member_calls_results) (use a in simp_all)
  from r show "fst (add_team_member_calls c tid ?calls) =
        [Inr (generate_id r1), Inr (generate_id r2), Inr (generate_id r3),
         Inr (generate_id r4), Inl TeamFull]"
    by (simp add: numeral_eq_Suc)
  from r show "member_count (session (snd (add_team_member_calls c tid ?calls))) tid = 4"
    by simp
next
  assume a: "team_exists (session c) tid \<and> member_count (session c) tid < 4 \<and>
    generate_id rnd \<in> set (map m_id (team_members (session c)))"
  then have r: "add_team_member c rnd tid n e p g s ci pc =
     (Inl IntegrityError,
      execute INSERT_team_members
        (execute SELECT_team_member_rows (execute SELECT_team_exists c)))"
    by (simp add: add_team_member_rejected)
  show "fst (add_team_member c rnd tid n e p g s ci pc) = Inl IntegrityError"
    by (simp add: r)
  show "same_tables c (snd (add_team_member c rnd tid n e p g s ci pc))"
    by (simp add: r same_tables_def execute_def)
qed

theorem team_member_count_bounded_witness:
  "capacity_respected (run reference_bcrypt demo_connection demo_operations) ''100001'' \<and>
   fst (add_team_member full_connection 6 ''100001'' ''N'' ''n@x.com'' ''1'' ''9'' ''S'' ''C''
          ''P'') = Inl TeamFull \<and>
   same_tables full_connection
     (snd (add_team_member full_connection 6 ''100001'' ''N'' ''n@x.com'' ''1'' ''9'' ''S''
             ''C'' ''P'')) \<and>
   fst (add_team_member_calls demo_connection ''100001''
          [(2, demo_fields), (3, demo_fields), (4, demo_fields), (5, demo_fields),
           (6, demo_fields)]) =
     [Inr ''100002'', Inr ''100003'', Inr ''100004'', Inr ''100005'', Inl TeamFull] \<and>
   member_count
     (session (snd (add_team_member_calls demo_connection ''100001''
          [(2, demo_fields), (3, demo_fields), (4, demo_fields), (5, demo_fields),
           (6, demo_fields)]))) ''100001'' = 4 \<and>
   fst (add_team_member one_member_connection 2 ''100001'' ''M'' ''m@x.com'' ''2'' ''8'' ''S''
          ''C'' ''P'') = Inl IntegrityError \<and>
   same_tables one_member_connection
     (snd (add_team_member one_member_connection 2 ''100001'' ''M'' ''m@x.com'' ''2'' ''8''
             ''S'' ''C'' ''P''))"
proof -
  have h1: "capacity_respected demo_connection ''100001''"
    by (simp add: capacity_respected_def member_count_def demo_connection_def demo_database_def)
  have h2: "team_exists (session full_connection) ''100001'' \<and>
            4 \<le> member_count (session full_connection) ''100001''"
    by (simp add: team_exists_def member_count_def full_connection_def full_database_def
        demo_database_def)
  have h3: "team_exists (session demo_connection) ''100001'' \<and>
    member_count (session demo_connection) ''100001'' = 0 \<and>
    distinct (map generate_id [2, 3, 4, 5]) \<and>
    set (map generate_id [2, 3, 4, 5]) \<inter>
      set (map m_id (team_members (session demo_connection))) = {}"
    by (simp add: team_exists_def member_count_def demo_connection_def demo_database_def
        generate_id_values)
  note a = team_member_count_bounded [where c = demo_connection and tid = "''100001''"
      and B = reference_bcrypt and ops = demo_operations, THEN conjunct1, THEN mp, OF h1]
  note b = team_member_count_bounded [where c = full_connection and tid = "''100001''"
      and rnd = 6 and n = "''N''" and e = "''n@x.com''" and p = "''1''" and g = "''9''"
      and s = "''S''" and ci = "''C''" and pc = "''P''",
      THEN conjunct2, THEN conjunct1, THEN mp, OF h2]
  note d = team_member_count_bounded [where c = demo_connection and tid = "''100001''"
      and ?r1.0 = 2 and ?r2.0 = 3 and ?r3.0 = 4 and ?r4.0 = 5 and ?r5.0 = 6
      and ?f1.0 = demo_fields and ?f2.0 = demo_fields and ?f3.0 = demo_fields
      and ?f4.0 = demo_fields and ?f5.0 = demo_fields,
      THEN conjunct2, THEN conjunct2, THEN conjunct1, THEN mp, OF h3]
  note z = team_member_count_bounded [where c = one_member_connection
      and tid = "''100001''" and rnd = 2 and n = "''M''" and e = "''m@x.com''"
      and p = "''2''" and g = "''8''" and s = "''S''" and ci = "''C''" and pc = "''P''",
      THEN conjunct2, THEN conjunct2, THEN conjunct2, THEN mp,
      OF one_member_connection_state]
  have abd: "capacity_respected (run reference_bcrypt demo_connection demo_operations)
      ''100001'' \<and>
   fst (add_team_member full_connection 6 ''100001'' ''N'' ''n@x.com'' ''1'' ''9'' ''S'' ''C''
          ''P'') = Inl TeamFull \<and>
   same_tables full_connection
     (snd (add_team_member full_connection 6 ''100001'' ''N'' ''n@x.com'' ''1'' ''9'' ''S''
             ''C'' ''P'')) \<and>
   fst (add_team_member_calls demo_connection ''100001''
          [(2, demo_fields), (3, demo_fields), (4, demo_fields), (5, demo_fields),
           (6, demo_fields)]) =
     [Inr ''100002'', Inr ''100003'', Inr ''100004'', Inr ''100005'', Inl TeamFull] \<and>
   member_count
     (session (snd (add_team_member_calls demo_connection ''100001''
          [(2, demo_fields), (3, demo_fields), (4, demo_fields), (5, demo_fields),
           (6, demo_fields)]))) ''100001'' = 4"
    using a b d by (simp add: generate_id_values)
  show ?thesis using abd z by simp
qed

text \<open>
  The claim as stated fails for the five calls: nothing makes the draws distinct. On
  the team \<open>100001\<close> without members, five calls whose first two draws are both \<open>2\<close>
  give the identifier, then \<open>IntegrityError\<close> for the second call, then three more
  identifiers: the second call does not succeed, and the fifth does not fail with
  \<open>TeamFull\<close>.
\<close>

theorem repeated_draw_breaks_five_calls:
  "fst (add_team_member_calls demo_connection ''100001''
          [(2, demo_fields), (2, demo_fields), (3, demo_fields), (4, demo_fields),
           (5, demo_fields)]) =
     [Inr ''100002'', Inl IntegrityError, Inr ''100003'', Inr ''100004'', Inr ''100005'']"
  by (simp add: demo_fields_def add_team_member_def team_members_accepts_def execute_def
      commit_def demo_connection_def demo_database_def generate_id_values Let_def)

text \<open>
  Claim C2, as amended. \<^verbatim>\<open>add_team_member\<close> checks in this order: a team identifier
  that no team has gives \<open>InvalidTeamId\<close>; otherwise four or more member rows of the
  team give \<open>TeamFull\<close>; otherwise the insert is executed. If the drawn identifier is not
  yet a member's, the row is inserted and committed and the new member identifier
  returned; if it is, the store refuses the row and its \<open>IntegrityError\<close> leaves the
  method. On each of the three errors every table, pending and committed, is as before.
\<close>

theorem add_team_member_check_order:
  "(\<not> team_exists (session c) tid \<longrightarrow>
      fst (add_team_member c rnd tid n e p g s ci pc) = Inl InvalidTeamId \<and>
      same_tables c (snd (add_team_member c rnd tid n e p g s ci pc))) \<and>
   (team_exists (session c) tid \<and> 4 \<le> member_count (session c) tid \<longrightarrow>
      fst (add_team_member c rnd tid n e p g s ci pc) = Inl TeamFull \<and>
      same_tables c (snd (add_team_member c rnd tid n e p g s ci pc))) \<and>
   (team_exists (session c) tid \<and> member_count (session c) tid < 4 \<and>
    generate_id rnd \<notin> set (map m_id (team_members (session c))) \<longrightarrow>
      fst (add_team_member c rnd tid n e p g s ci pc) = Inr (generate_id rnd) \<and>
      session (snd (add_team_member c rnd tid n e p g s ci pc)) =
        (session c)\<lparr>team_members := team_members (session c) @
          [\<lparr>m_id = generate_id rnd, m_team_id = tid, m_name = n, m_email = e,
            m_phone_number = p, m_grade = g, m_school_name = s, m_city = ci,
            m_pin_code = pc\<rparr>]\<rparr> \<and>
      committed (snd (add_team_member c rnd tid n e p g s ci pc)) =
        session (snd (add_team_member c rnd tid n e p g s ci pc))) \<and>
   (team_exists (session c) tid \<and> member_count (session c) tid < 4 \<and>
    generate_id rnd \<in> set (map m_id (team_members (session c))) \<longrightarrow>
      fst (add_team_member c rnd tid n e p g s ci pc) = Inl IntegrityError \<and>
      same_tables c (snd (add_team_member c rnd tid n e p g s ci pc)))"
proof (intro conjI impI)
  assume a: "\<not> team_exists (session c) tid"
  show "fst (add_team_member c rnd tid n e p g s ci pc) = Inl InvalidTeamId"
    by (simp add: add_team_member_invalid [OF a])
  show "same_tables c (snd (add_team_member c rnd tid n e p g s ci pc))"
    by (simp add: add_team_member_invalid [OF a] same_tables_def execute_def)
next
  assume a: "team_exists (session c) tid \<and> 4 \<le> member_count (session c) tid"
  then have r: "add_team_member c rnd tid n e p g s ci pc =
      (Inl TeamFull, execute SELECT_team_member_rows (execute SELECT_team_exists c))"
    by (simp add: add_team_member_full)
  show "fst (add_team_member c rnd tid n e p g s ci pc) = Inl TeamFull"
    by (simp add: r)
  show "same_tables c (snd (add_team_member c rnd tid n e p g s ci pc))"
    by (simp add: r same_tables_def execute_def)
next
  assume a: "team_exists (session c) tid \<and> member_count (session c) tid < 4 \<and>
    generate_id rnd \<notin> set (map m_id (team_members (session c)))"
  note r = add_team_member_inserts [of c tid rnd n e p g s ci pc]
  show "fst (add_team_member c rnd tid n e p g s ci pc) = Inr (generate_id rnd)"
    using a r by simp
  show "session (snd (add_team_member c rnd tid n e p g s ci pc)) =
        (session c)\<lparr>team_members := team_members (session c) @
          [\<lparr>m_id = generate_id rnd, m_team_id = tid, m_name = n, m_email = e,
            m_phone_number = p, m_grade = g, m_school_name = s, m_city = ci,
            m_pin_code = pc\<rparr>]\<rparr>"
    using a r by simp
  show "committed (snd (add_team_member c rnd tid n e p g s ci pc)) =
        session (snd (add_team_member c rnd tid n e p g s ci pc))"
    using a r by simp
next
  assume a: "team_exists (session c) tid \<and> member_count (session c) tid < 4 \<and>
    generate_id rnd \<in> set (map m_id (team_members (session c)))"
  then have r: "add_team_member c rnd tid n e p g s ci pc =
     (Inl IntegrityError,
      execute INSERT_team_members
        (execute SELECT_team_member_rows (execute SELECT_team_exists c)))"
    by (simp add: add_team_member_rejected)
  show "fst (add_team_member c rnd tid n e p g s ci pc) = Inl IntegrityError"
    by (simp add: r)
  show "same_tables c (snd (add_team_member c rnd tid n e p g s ci pc))"
    by (simp add: r same_tables_def execute_def)
qed

theorem add_team_member_check_order_witness:
  "fst (add_team_member demo_connection 6 ''999999'' ''N'' ''n@x.com'' ''1'' ''9'' ''S'' ''C''
          ''P'') = Inl InvalidTeamId \<and>
   same_tables demo_connection
     (snd (add_team_member demo_connection 6 ''999999'' ''N'' ''n@x.com'' ''1'' ''9'' ''S''
             ''C'' ''P'')) \<and>
   fst (add_team_member full_connection 6 ''100001'' ''N'' ''n@x.com'' ''1'' ''9'' ''S'' ''C''
          ''P'') = Inl TeamFull \<and>
   same_tables full_connection
     (snd (add_team_member full_connection 6 ''100001'' ''N'' ''n@x.com'' ''1'' ''9'' ''S''
             ''C'' ''P'')) \<and>
   fst (add_team_member demo_connection 6 ''100001'' ''N'' ''n@x.com'' ''1'' ''9'' ''S'' ''C''
          ''P'') = Inr ''100006'' \<and>
   map m_id (team_members (session
     (snd (add_team_member demo_connection 6 ''100001'' ''N'' ''n@x.com'' ''1'' ''9'' ''S''
             ''C'' ''P'')))) = [''100006''] \<and>
   fst (add_team_member one_member_connection 2 ''100001'' ''M'' ''m@x.com'' ''2'' ''8'' ''S''
          ''C'' ''P'') = Inl IntegrityError \<and>
   same_tables one_member_connection
     (snd (add_team_member one_member_connection 2 ''100001'' ''M'' ''m@x.com'' ''2'' ''8''
             ''S'' ''C'' ''P''))"
proof -
  have h1: "\<not> team_exists (session demo_connection) ''999999''"
    by (simp add: team_exists_def demo_connection_def demo_database_def)
  have h2: "team_exists (session full_connection) ''100001'' \<and>
            4 \<le> member_count (session full_connection) ''100001''"
    by (simp add: team_exists_def member_count_def full_connection_def full_database_def
        demo_database_def)
  have h3: "team_exists (session demo_connection) ''100001'' \<and>
    member_count (session demo_connection) ''100001'' < 4 \<and>
    generate_id 6 \<notin> set (map m_id (team_members (session demo_connection)))"
    by (simp add: team_exists_def member_count_def demo_connection_def demo_database_def)
  note a = add_team_member_check_order [where c = demo_connection and tid = "''999999''"
      and rnd = 6 and n = "''N''" and e = "''n@x.com''" and p = "''1''" and g = "''9''"
      and s = "''S''" and ci = "''C''" and pc = "''P''", THEN conjunct1, THEN mp, OF h1]
  note b = add_team_member_check_order [where c = full_connection and tid = "''100001''"
      and rnd = 6 and n = "''N''" and e = "''n@x.com''" and p = "''1''" and g = "''9''"
      and s = "''S''" and ci = "''C''" and pc = "''P''",
      THEN conjunct2, THEN conjunct1, THEN mp, OF h2]
  note d = add_team_member_check_order [where c = demo_connection and tid = "''100001''"
      and rnd = 6 and n = "''N''" and e = "''n@x.com''" and p = "''1''" and g = "''9''"
      and s = "''S''" and ci = "''C''" and pc = "''P''",
      THEN conjunct2, THEN conjunct2, THEN conjunct1, THEN mp, OF h3]
  note z = add_team_member_check_order [where c = one_member_connection
      and tid = "''100001''" and rnd = 2 and n = "''M''" and e = "''m@x.com''"
      and p = "''2''" and g = "''8''" and s = "''S''" and ci = "''C''" and pc = "''P''",
      THEN conjunct2, THEN conjunct2, THEN conjunct2, THEN mp,
      OF one_member_connection_state]
  have m: "team_members (session demo_connection) = []"
    by (simp add: demo_connection_def demo_database_def)
  have abd: "fst (add_team_member demo_connection 6 ''999999'' ''N'' ''n@x.com'' ''1'' ''9''
          ''S'' ''C'' ''P'') = Inl InvalidTeamId \<and>
   same_tables demo_connection
     (snd (add_team_member demo_connection 6 ''999999'' ''N'' ''n@x.com'' ''1'' ''9'' ''S''
             ''C'' ''P'')) \<and>
   fst (add_team_member full_connection 6 ''100001'' ''N'' ''n@x.com'' ''1'' ''9'' ''S'' ''C''
          ''P'') = Inl TeamFull \<and>
   same_tables full_connection
     (snd (add_team_member full_connection 6 ''100001'' ''N'' ''n@x.com'' ''1'' ''9'' ''S''
             ''C'' ''P'')) \<and>
   fst (add_team_member demo_connection 6 ''100001'' ''N'' ''n@x.com'' ''1'' ''9'' ''S'' ''C''
          ''P'') = Inr ''100006'' \<and>
   map m_id (team_members (session
     (snd (add_team_member demo_connection 6 ''100001'' ''N'' ''n@x.com'' ''1'' ''9'' ''S''
             ''C'' ''P'')))) = [''100006'']"
    using a b d by (simp add: generate_id_values m)
  show ?thesis using abd z by simp
qed

text \<open>
  The claim as stated fails in its last step. The team \<open>100001\<close> exists and has one
  member, whose identifier is \<open>100002\<close>. A call that draws \<open>100002\<close> again passes both
  checks, and the insert is refused: the method neither inserts nor returns a member
  identifier, and the error is none of the two the claim lists.
\<close>

theorem taken_identifier_is_a_fourth_outcome:
  "team_exists (session one_member_connection) ''100001'' \<and>
   member_count (session one_member_connection) ''100001'' = 1 \<and>
   fst (add_team_member one_member_connection 2 ''100001'' ''M'' ''m@x.com'' ''2'' ''8'' ''S''
          ''C'' ''P'') = Inl IntegrityError"
  by (simp add: one_member_connection_def team_exists_def member_count_def add_team_member_def
      team_members_accepts_def execute_def commit_def demo_connection_def demo_database_def
      generate_id_values Let_def)

text \<open>
  Claim C3 (the code departs from it). \<^verbatim>\<open>add_team_member\<close>, like \<^verbatim>\<open>create_team\<close> and
  \<^verbatim>\<open>get_teams\<close>, verifies the token first and answers a failed verification with the
  logged-in flag false, without a statement on the store. \<^verbatim>\<open>get_team_members\<close> and
  \<^verbatim>\<open>get_team_member_details\<close> query the store for the owner before they verify the
  token: for a team that exists the response has the flag false but the lookup has been
  executed, and for a team identifier no team has the \<open>InvalidTeamId\<close> of the lookup
  leaves the endpoint unhandled. \<^verbatim>\<open>get_current_id\<close> lets the \<open>ValueError\<close> of a
  malformed proof escape, where \<^verbatim>\<open>get_id\<close> turns it into \<open>AuthenticationFailure\<close>.
\<close>

theorem unverified_token_reaches_store:
  "(get_id B cookies = Inl AuthenticationFailure \<longrightarrow>
      add_team_member_endpoint B c rnd cookies arequest =
        (Inr \<lparr>atr_success = False, atr_logged_in = False, atr_space_available = True,
              atr_team_created = True, atr_user_team_match = True\<rparr>, c)) \<and>
   (get_id B cookies = Inl AuthenticationFailure \<and>
      team_exists (session c) (gmq_team_id request) \<longrightarrow>
      get_team_members_endpoint B c cookies request =
        (Inr \<lparr>gmr_team_member_ids = [], gmr_success = False, gmr_logged_in = False,
              gmr_user_team_match = True\<rparr>, execute SELECT_team_owner c)) \<and>
   (get_id B cookies = Inl AuthenticationFailure \<and>
      \<not> team_exists (session c) (gmq_team_id request) \<longrightarrow>
      get_team_members_endpoint B c cookies request =
        (Inl InvalidTeamId, execute SELECT_team_owner c)) \<and>
   (get_id B cookies = Inl AuthenticationFailure \<and>
      \<not> team_exists (session c) (gdq_team_id drequest) \<longrightarrow>
      get_team_member_details_endpoint B c cookies drequest =
        (Inl InvalidTeamId, execute SELECT_team_owner c)) \<and>
   (checkpw B (user_id cookies) (hashed_user_id cookies) = None \<longrightarrow>
      get_id B cookies = Inl AuthenticationFailure \<and> get_current_id B cookies = Inl ValueError)"
proof (intro conjI impI)
  assume "get_id B cookies = Inl AuthenticationFailure"
  then show "add_team_member_endpoint B c rnd cookies arequest =
        (Inr \<lparr>atr_success = False, atr_logged_in = False, atr_space_available = True,
              atr_team_created = True, atr_user_team_match = True\<rparr>, c)"
    by (simp add: add_team_member_endpoint_def)
next
  assume a: "get_id B cookies = Inl AuthenticationFailure \<and>
      team_exists (session c) (gmq_team_id request)"
  then obtain owner where
    "get_user_id_for_team c (gmq_team_id request) = (Inr owner, execute SELECT_team_owner c)"
    using get_user_id_for_team_present by blast
  with a show "get_team_members_endpoint B c cookies request =
        (Inr \<lparr>gmr_team_member_ids = [], gmr_success = False, gmr_logged_in = False,
              gmr_user_team_match = True\<rparr>, execute SELECT_team_owner c)"
    by (simp add: get_team_members_endpoint_def Let_def)
next
  assume "get_id B cookies = Inl AuthenticationFailure \<and>
      \<not> team_exists (session c) (gmq_team_id request)"
  then show "get_team_members_endpoint B c cookies request =
        (Inl InvalidTeamId, execute SELECT_team_owner c)"
    by (simp add: get_team_members_endpoint_def get_user_id_for_team_absent Let_def)
next
  assume "get_id B cookies = Inl AuthenticationFailure \<and>
      \<not> team_exists (session c) (gdq_team_id drequest)"
  then show "get_team_member_details_endpoint B c cookies drequest =
        (Inl InvalidTeamId, execute SELECT_team_owner c)"
    by (simp add: get_team_member_details_endpoint_def get_user_id_for_team_absent Let_def)
next
  assume n: "checkpw B (user_id cookies) (hashed_user_id cookies) = None"
  show "get_id B cookies = Inl AuthenticationFailure" using n by (simp add: get_id_def)
  show "get_current_id B cookies = Inl ValueError" using n by (simp add: get_current_id_def)
qed

theorem unverified_token_reaches_store_witness:
  "add_team_member_endpoint reference_bcrypt demo_connection 6 empty_cookies
       demo_member_request =
     (Inr \<lparr>atr_success = False, atr_logged_in = False, atr_space_available = True,
           atr_team_created = True, atr_user_team_match = True\<rparr>, demo_connection) \<and>
   get_team_members_endpoint reference_bcrypt demo_connection empty_cookies
       \<lparr>gmq_team_id = ''100001''\<rparr> =
     (Inr \<lparr>gmr_team_member_ids = [], gmr_success = False, gmr_logged_in = False,
           gmr_user_team_match = True\<rparr>, execute SELECT_team_owner demo_connection) \<and>
   get_team_members_endpoint reference_bcrypt demo_connection empty_cookies
       \<lparr>gmq_team_id = ''999999''\<rparr> =
     (Inl InvalidTeamId, execute SELECT_team_owner demo_connection) \<and>
   get_team_member_details_endpoint reference_bcrypt demo_connection empty_cookies
       \<lparr>gdq_team_id = ''999999'', gdq_team_member_id = ''100002''\<rparr> =
     (Inl InvalidTeamId, execute SELECT_team_owner demo_connection) \<and>
   get_current_id reference_bcrypt empty_cookies = Inl ValueError"
proof -
  have h0: "get_id reference_bcrypt empty_cookies = Inl AuthenticationFailure \<and>
      team_exists (session demo_connection) (gmq_team_id \<lparr>gmq_team_id = ''100001''\<rparr>)"
    by (simp add: reference_get_id_empty team_exists_def demo_connection_def
        demo_database_def)
  have h1: "get_id reference_bcrypt empty_cookies = Inl AuthenticationFailure \<and>
      \<not> team_exists (session demo_connection) (gmq_team_id \<lparr>gmq_team_id = ''999999''\<rparr>)"
    by (simp add: reference_get_id_empty team_exists_def demo_connection_def
        demo_database_def)
  have h2: "get_id reference_bcrypt empty_cookies = Inl AuthenticationFailure \<and>
      \<not> team_exists (session demo_connection)
          (gdq_team_id \<lparr>gdq_team_id = ''999999'', gdq_team_member_id = ''100002''\<rparr>)"
    by (simp add: reference_get_id_empty team_exists_def demo_connection_def
        demo_database_def)
  have h3: "checkpw reference_bcrypt (user_id empty_cookies) (hashed_user_id empty_cookies)
      = None"
    by (simp add: reference_bcrypt_def reference_checkpw_def empty_cookies_def)
  note z = unverified_token_reaches_store [THEN conjunct1, THEN mp,
      OF reference_get_id_empty]
  note y = unverified_token_reaches_store [THEN conjunct2, THEN conjunct1, THEN mp, OF h0]
  note a = unverified_token_reaches_store [THEN conjunct2, THEN conjunct2, THEN conjunct1,
      THEN mp, OF h1]
  note b = unverified_token_reaches_store [THEN conjunct2, THEN conjunct2, THEN conjunct2,
      THEN conjunct1, THEN mp, OF h2]
  note d = unverified_token_reaches_store [THEN conjunct2, THEN conjunct2, THEN conjunct2,
      THEN conjunct2, THEN mp, OF h3, THEN conjunct2]
  show ?thesis by (rule conjI [OF z conjI [OF y conjI [OF a conjI [OF b d]]]])
qed

text \<open>
  Claim C4, as amended. Given that the library accepts the digests it produces, the
  pair of cookies set by a successful \<^verbatim>\<open>register\<close> or \<^verbatim>\<open>login\<close> is the identifier and
  a digest of it, and \<^verbatim>\<open>get_id\<close> accepts the pair for that identifier. A presented pair
  is accepted exactly when \<^verbatim>\<open>bcrypt.checkpw\<close> returns true for it: every pair it does
  not accept is refused with \<open>AuthenticationFailure\<close>; an altered identifier is refused
  when the library rejects every value other than the hashed one; and an altered proof
  that is a digest of the identifier under another salt is accepted.
\<close>

theorem issued_token_verifies:
  assumes "accepts_own_digests B"
  shows
   "(register B c rnd salt_password salt_cookie rrequest = (Inr rresp, cookies, c1) \<and>
       rr_success rresp \<longrightarrow>
       cookies = [set_cookie ''user_id'' (rr_id rresp),
                  set_cookie ''hashed_user_id'' (hashpw B (rr_id rresp) salt_cookie)] \<and>
       get_id B \<lparr>user_id = rr_id rresp,
                 hashed_user_id = hashpw B (rr_id rresp) salt_cookie\<rparr> = Inr (rr_id rresp)) \<and>
    (login B c salt_cookie lrequest = (Inr lresp, cookies', c2) \<and> lr_success lresp \<longrightarrow>
       (\<exists>uid. cookies' = [set_cookie ''user_id'' uid,
                          set_cookie ''hashed_user_id'' (hashpw B uid salt_cookie)] \<and>
              get_id B \<lparr>user_id = uid, hashed_user_id = hashpw B uid salt_cookie\<rparr> =
                Inr uid)) \<and>
    (\<forall>u h. (get_id B \<lparr>user_id = u, hashed_user_id = h\<rparr> = Inr u) =
            (checkpw B u h = Some True)) \<and>
    (\<forall>u h. checkpw B u h \<noteq> Some True \<longrightarrow>
            get_id B \<lparr>user_id = u, hashed_user_id = h\<rparr> = Inl AuthenticationFailure) \<and>
    (rejects_other_values B \<longrightarrow>
       (\<forall>u u' salt. u' \<noteq> u \<longrightarrow>
          get_id B \<lparr>user_id = u', hashed_user_id = hashpw B u salt\<rparr> =
            Inl AuthenticationFailure)) \<and>
    (\<forall>u salt'. get_id B \<lparr>user_id = u, hashed_user_id = hashpw B u salt'\<rparr> = Inr u)"
proof (intro conjI impI allI)
  assume a: "register B c rnd salt_password salt_cookie rrequest = (Inr rresp, cookies, c1) \<and>
       rr_success rresp"
  show "cookies = [set_cookie ''user_id'' (rr_id rresp),
                  set_cookie ''hashed_user_id'' (hashpw B (rr_id rresp) salt_cookie)]"
    using a register_issues_token by blast
  show "get_id B \<lparr>user_id = rr_id rresp,
                 hashed_user_id = hashpw B (rr_id rresp) salt_cookie\<rparr> = Inr (rr_id rresp)"
    by (rule resalted_proof_accepted [OF assms])
next
  assume a: "login B c salt_cookie lrequest = (Inr lresp, cookies', c2) \<and> lr_success lresp"
  then obtain uid where "cookies' = [set_cookie ''user_id'' uid,
                          set_cookie ''hashed_user_id'' (hashpw B uid salt_cookie)]"
    using login_issues_token by blast
  then show "\<exists>uid. cookies' = [set_cookie ''user_id'' uid,
                          set_cookie ''hashed_user_id'' (hashpw B uid salt_cookie)] \<and>
              get_id B \<lparr>user_id = uid, hashed_user_id = hashpw B uid salt_cookie\<rparr> =
                Inr uid"
    using resalted_proof_accepted [OF assms] by blast
next
  fix u h
  show "(get_id B \<lparr>user_id = u, hashed_user_id = h\<rparr> = Inr u) = (checkpw B u h = Some True)"
    by (simp add: get_id_accepts_iff)
next
  fix u h :: string
  assume "checkpw B u h \<noteq> Some True"
  then show "get_id B \<lparr>user_id = u, hashed_user_id = h\<rparr> = Inl AuthenticationFailure"
    by (simp add: get_id_fails_iff)
next
  fix u u' salt :: string
  assume "rejects_other_values B" and "u' \<noteq> u"
  then have "checkpw B u' (hashpw B u salt) = Some False"
    by (simp add: rejects_other_values_def)
  then show "get_id B \<lparr>user_id = u', hashed_user_id = hashpw B u salt\<rparr> =
      Inl AuthenticationFailure"
    by (simp add: get_id_def)
next
  fix u salt'
  show "get_id B \<lparr>user_id = u, hashed_user_id = hashpw B u salt'\<rparr> = Inr u"
    by (rule resalted_proof_accepted [OF assms])
qed

theorem issued_token_verifies_witness:
  "get_id reference_bcrypt
     \<lparr>user_id = ''100007'', hashed_user_id = hashpw reference_bcrypt ''100007'' ''s2''\<rparr> =
     Inr ''100007'' \<and>
   get_id reference_bcrypt
     \<lparr>user_id = ''100008'', hashed_user_id = hashpw reference_bcrypt ''100007'' ''s2''\<rparr> =
     Inl AuthenticationFailure \<and>
   get_id reference_bcrypt \<lparr>user_id = ''100007'', hashed_user_id = ''x''\<rparr> =
     Inl AuthenticationFailure"
proof -
  let ?request = "\<lparr>reg_email = ''b@x.com'', reg_password = ''password2''\<rparr>"
  let ?response = "\<lparr>rr_id = ''100007'', rr_success = True, rr_email_unique = True,
      rr_password_acceptable = True\<rparr>"
  let ?cookies = "[set_cookie ''user_id'' ''100007'',
      set_cookie ''hashed_user_id'' (hashpw reference_bcrypt ''100007'' ''s2'')]"
  have ok: "users_accepts (session (execute INSERT_users demo_connection))
      \<lparr>u_id = ''100007'', u_email = ''b@x.com'',
        u_password = hash_password reference_bcrypt ''password2'' ''s1''\<rparr>"
    by (simp add: users_accepts_def execute_def demo_connection_def demo_database_def)
  have h: "register reference_bcrypt demo_connection 7 ''s1'' ''s2'' ?request =
      (Inr ?response, ?cookies,
       snd (snd (register reference_bcrypt demo_connection 7 ''s1'' ''s2'' ?request))) \<and>
      rr_success ?response"
    using ok by (simp add: register_def register_user_def generate_id_7 Let_def)
  have ne: "''100008'' \<noteq> ''100007''" by simp
  have nc: "checkpw reference_bcrypt ''100007'' ''x'' \<noteq> Some True"
    by (simp add: reference_bcrypt_def reference_checkpw_def)
  note t = issued_token_verifies [OF reference_accepts_own]
  have a: "get_id reference_bcrypt
     \<lparr>user_id = ''100007'', hashed_user_id = hashpw reference_bcrypt ''100007'' ''s2''\<rparr> =
     Inr ''100007''"
    using t [THEN conjunct1, THEN mp, OF h] by simp
  note b = t [THEN conjunct2, THEN conjunct2, THEN conjunct2, THEN conjunct2, THEN conjunct1,
      THEN mp, OF reference_rejects_others, THEN spec, THEN spec, THEN spec, THEN mp, OF ne]
  note d = t [THEN conjunct2, THEN conjunct2, THEN conjunct2, THEN conjunct1,
      THEN spec, THEN spec, THEN mp, OF nc]
  show ?thesis by (rule conjI [OF a conjI [OF b d]])
qed

text \<open>
  The claim as stated fails for the proof field. The user \<open>100000\<close> logs in twice; the
  two logins draw the salts \<open>s1\<close> and \<open>s2\<close> and set two different proofs. Replacing the
  proof of the first login by that of the second alters the proof field, and \<^verbatim>\<open>get_id\<close>
  still accepts the pair for \<open>100000\<close>.
\<close>

theorem altered_proof_still_verifies:
  "fst (snd (login reference_bcrypt demo_connection ''s1''
               \<lparr>login_email = ''a@x.com'', login_password = ''password1''\<rparr>)) =
     [set_cookie ''user_id'' ''100000'', set_cookie ''hashed_user_id'' ''s1100000''] \<and>
   fst (snd (login reference_bcrypt demo_connection ''s2''
               \<lparr>login_email = ''a@x.com'', login_password = ''password1''\<rparr>)) =
     [set_cookie ''user_id'' ''100000'', set_cookie ''hashed_user_id'' ''s2100000''] \<and>
   ''s2100000'' \<noteq> ''s1100000'' \<and>
   get_id reference_bcrypt \<lparr>user_id = ''100000'', hashed_user_id = ''s1100000''\<rparr> =
     Inr ''100000'' \<and>
   get_id reference_bcrypt \<lparr>user_id = ''100000'', hashed_user_id = ''s2100000''\<rparr> =
     Inr ''100000''"
  by (simp add: login_def verify_password_def get_user_id_def get_id_def execute_def
      demo_connection_def demo_database_def reference_bcrypt_def reference_hashpw_def
      reference_checkpw_def Let_def)

text \<open>
  Claim C5. An authenticated user who is not the recorded owner of an existing team gets,
  from each of the three team-scoped endpoints, the response with the user-team match
  flag false and success false, with an empty member list or no member details. The
  only statement executed is the owner lookup, so every table is as before; and the
  response is the same on any store with the same \<open>teams\<close> table, whatever its member
  rows are.
\<close>

theorem non_owner_is_refused:
  assumes "get_id B cookies = Inr uid"
    and "fst (get_user_id_for_team c tid) = Inr owner"
    and "owner \<noteq> uid"
    and "atq_team_id arequest = tid"
  shows "add_team_member_endpoint B c rnd cookies arequest =
           (Inr \<lparr>atr_success = False, atr_logged_in = True, atr_space_available = True,
                 atr_team_created = True, atr_user_team_match = False\<rparr>,
            execute SELECT_team_owner c) \<and>
         get_team_members_endpoint B c cookies \<lparr>gmq_team_id = tid\<rparr> =
           (Inr \<lparr>gmr_team_member_ids = [], gmr_success = False, gmr_logged_in = True,
                 gmr_user_team_match = False\<rparr>,
            execute SELECT_team_owner c) \<and>
         get_team_member_details_endpoint B c cookies
             \<lparr>gdq_team_id = tid, gdq_team_member_id = mid\<rparr> =
           (Inr \<lparr>gdr_team_member_details = None, gdr_success = False, gdr_logged_in = True,
                 gdr_user_team_match = False, gdr_team_member_exists = True\<rparr>,
            execute SELECT_team_owner c) \<and>
         same_tables c (execute SELECT_team_owner c) \<and>
         (\<forall>c'. teams (session c') = teams (session c) \<longrightarrow>
            fst (add_team_member_endpoint B c' rnd cookies arequest) =
              fst (add_team_member_endpoint B c rnd cookies arequest) \<and>
            fst (get_team_members_endpoint B c' cookies \<lparr>gmq_team_id = tid\<rparr>) =
              fst (get_team_members_endpoint B c cookies \<lparr>gmq_team_id = tid\<rparr>) \<and>
            fst (get_team_member_details_endpoint B c' cookies
                   \<lparr>gdq_team_id = tid, gdq_team_member_id = mid\<rparr>) =
              fst (get_team_member_details_endpoint B c cookies
                   \<lparr>gdq_team_id = tid, gdq_team_member_id = mid\<rparr>))"
proof -
  have refused:
    "add_team_member_endpoint B d rnd cookies arequest =
           (Inr \<lparr>atr_success = False, atr_logged_in = True, atr_space_available = True,
                 atr_team_created = True, atr_user_team_match = False\<rparr>,
            execute SELECT_team_owner d) \<and>
         get_team_members_endpoint B d cookies \<lparr>gmq_team_id = tid\<rparr> =
           (Inr \<lparr>gmr_team_member_ids = [], gmr_success = False, gmr_logged_in = True,
                 gmr_user_team_match = False\<rparr>,
            execute SELECT_team_owner d) \<and>
         get_team_member_details_endpoint B d cookies
             \<lparr>gdq_team_id = tid, gdq_team_member_id = mid\<rparr> =
           (Inr \<lparr>gdr_team_member_details = None, gdr_success = False, gdr_logged_in = True,
                 gdr_user_team_match = False, gdr_team_member_exists = True\<rparr>,
            execute SELECT_team_owner d)"
    if d: "fst (get_user_id_for_team d tid) = Inr owner" for d
  proof -
    have g: "get_user_id_for_team d tid = (Inr owner, execute SELECT_team_owner d)"
      using d get_user_id_for_team_snd [of d tid] by (simp add: prod_eq_iff)
    show ?thesis
      using assms(1,3,4) g
      by (auto simp: add_team_member_endpoint_def get_team_members_endpoint_def
          get_team_member_details_endpoint_def Let_def)
  qed
  have same: "same_tables c (execute SELECT_team_owner c)"
    by (simp add: same_tables_def execute_def)
  have indep: "fst (add_team_member_endpoint B c' rnd cookies arequest) =
              fst (add_team_member_endpoint B c rnd cookies arequest) \<and>
            fst (get_team_members_endpoint B c' cookies \<lparr>gmq_team_id = tid\<rparr>) =
              fst (get_team_members_endpoint B c cookies \<lparr>gmq_team_id = tid\<rparr>) \<and>
            fst (get_team_member_details_endpoint B c' cookies
                   \<lparr>gdq_team_id = tid, gdq_team_member_id = mid\<rparr>) =
              fst (get_team_member_details_endpoint B c cookies
                   \<lparr>gdq_team_id = tid, gdq_team_member_id = mid\<rparr>)"
    if t: "teams (session c') = teams (session c)" for c'
  proof -
    have "fst (get_user_id_for_team c' tid) = Inr owner"
      using get_user_id_for_team_same_teams [OF t, of tid] assms(2) by simp
    from refused [OF this] refused [OF assms(2)] show ?thesis by simp
  qed
  from refused [OF assms(2)] same indep show ?thesis by simp
qed

theorem non_owner_is_refused_witness:
  "add_team_member_endpoint reference_bcrypt demo_connection 6 other_cookies
       demo_member_request =
     (Inr \<lparr>atr_success = False, atr_logged_in = True, atr_space_available = True,
           atr_team_created = True, atr_user_team_match = False\<rparr>,
      execute SELECT_team_owner demo_connection) \<and>
   get_team_members_endpoint reference_bcrypt full_connection other_cookies
       \<lparr>gmq_team_id = ''100001''\<rparr> =
     (Inr \<lparr>gmr_team_member_ids = [], gmr_success = False, gmr_logged_in = True,
           gmr_user_team_match = False\<rparr>,
      execute SELECT_team_owner full_connection) \<and>
   get_team_member_details_endpoint reference_bcrypt full_connection other_cookies
       \<lparr>gdq_team_id = ''100001'', gdq_team_member_id = ''100002''\<rparr> =
     (Inr \<lparr>gdr_team_member_details = None, gdr_success = False, gdr_logged_in = True,
           gdr_user_team_match = False, gdr_team_member_exists = True\<rparr>,
      execute SELECT_team_owner full_connection)"
proof -
  have o1: "fst (get_user_id_for_team demo_connection ''100001'') = Inr ''100000''"
    by (simp add: get_user_id_for_team_def execute_def demo_connection_def demo_database_def)
  have o2: "fst (get_user_id_for_team full_connection ''100001'') = Inr ''100000''"
    by (simp add: get_user_id_for_team_def execute_def full_connection_def full_database_def
        demo_database_def)
  have ne: "''100000'' \<noteq> ''200000''" by simp
  have rq: "atq_team_id demo_member_request = ''100001''"
    by (simp add: demo_member_request_def)
  note a = non_owner_is_refused [OF reference_get_id_other o1 ne rq, THEN conjunct1]
  note b = non_owner_is_refused [OF reference_get_id_other o2 ne rq,
      THEN conjunct2, THEN conjunct1]
  note d = non_owner_is_refused [OF reference_get_id_other o2 ne rq,
      THEN conjunct2, THEN conjunct2, THEN conjunct1]
  show ?thesis by (rule conjI [OF a conjI [OF b d]])
qed

text \<open>
  Claim C6 (the code departs from it). For an authenticated request that names a team
  identifier no team has, \<^verbatim>\<open>add_team_member\<close> answers with team-created false, but
  \<^verbatim>\<open>get_team_members\<close> and \<^verbatim>\<open>get_team_member_details\<close> return no response: the
  \<open>InvalidTeamId\<close> of the owner lookup is handled by neither \<^verbatim>\<open>except\<close> clause and leaves
  the endpoint.
\<close>

theorem missing_team_unhandled_by_read_endpoints:
  assumes "get_id B cookies = Inr uid"
    and "\<not> team_exists (session c) tid"
  shows "get_team_members_endpoint B c cookies \<lparr>gmq_team_id = tid\<rparr> =
           (Inl InvalidTeamId, execute SELECT_team_owner c) \<and>
         get_team_member_details_endpoint B c cookies
             \<lparr>gdq_team_id = tid, gdq_team_member_id = mid\<rparr> =
           (Inl InvalidTeamId, execute SELECT_team_owner c) \<and>
         add_team_member_endpoint B c rnd cookies (arequest\<lparr>atq_team_id := tid\<rparr>) =
           (Inr \<lparr>atr_success = False, atr_logged_in = True, atr_space_available = True,
                 atr_team_created = False, atr_user_team_match = False\<rparr>,
            execute SELECT_team_owner c)"
  using assms
  by (simp add: get_team_members_endpoint_def get_team_member_details_endpoint_def
      add_team_member_endpoint_def get_user_id_for_team_absent Let_def)

theorem missing_team_unhandled_by_read_endpoints_witness:
  "get_team_members_endpoint reference_bcrypt demo_connection demo_cookies
       \<lparr>gmq_team_id = ''999999''\<rparr> =
     (Inl InvalidTeamId, execute SELECT_team_owner demo_connection) \<and>
   get_team_member_details_endpoint reference_bcrypt demo_connection demo_cookies
       \<lparr>gdq_team_id = ''999999'', gdq_team_member_id = ''100002''\<rparr> =
     (Inl InvalidTeamId, execute SELECT_team_owner demo_connection)"
proof -
  have h: "\<not> team_exists (session demo_connection) ''999999''"
    by (simp add: team_exists_def demo_connection_def demo_database_def)
  note t = missing_team_unhandled_by_read_endpoints [OF reference_get_id_demo h]
  show ?thesis by (rule conjI [OF t [THEN conjunct1] t [THEN conjunct2, THEN conjunct1]])
qed

text \<open>
  Claim C7, as amended. After \<^verbatim>\<open>register_user\<close> succeeded for an email and a password,
  \<^verbatim>\<open>verify_password\<close> with that email hands \<^verbatim>\<open>bcrypt.checkpw\<close> the candidate and the
  digest this registration stored, and returns its answer. So it returns \<open>True\<close> for the
  same password when the library accepts the digests it produces, and for another
  password it returns \<open>False\<close> exactly when the library answers \<open>False\<close> for that
  candidate; where the library raises, the \<open>ValueError\<close> leaves the method.
\<close>

theorem verify_password_after_register_user:
  assumes "register_user B c rnd salt email password = (Inr uid, c1)"
  shows "(accepts_own_digests B \<longrightarrow> fst (verify_password B c1 email password) = Inr True) \<and>
         (\<forall>other. fst (verify_password B c1 email other) =
            (case checkpw B other (hashpw B password salt) of
               None \<Rightarrow> Inl ValueError | Some ok \<Rightarrow> Inr ok)) \<and>
         (\<forall>other. (fst (verify_password B c1 email other) = Inr False) =
            (checkpw B other (hashpw B password salt) = Some False))"
proof (intro conjI impI allI)
  assume "accepts_own_digests B"
  then show "fst (verify_password B c1 email password) = Inr True"
    using verify_password_after_register [OF assms, of password]
    by (simp add: accepts_own_digests_def)
next
  fix other
  show "fst (verify_password B c1 email other) =
            (case checkpw B other (hashpw B password salt) of
               None \<Rightarrow> Inl ValueError | Some ok \<Rightarrow> Inr ok)"
    by (rule verify_password_after_register [OF assms])
next
  fix other
  show "(fst (verify_password B c1 email other) = Inr False) =
            (checkpw B other (hashpw B password salt) = Some False)"
    using verify_password_after_register [OF assms, of other]
    by (auto split: option.splits)
qed

theorem verify_password_after_register_user_witness:
  "fst (verify_password reference_bcrypt
          (snd (register_user reference_bcrypt demo_connection 7 ''s1'' ''b@x.com''
                  ''password2''))
          ''b@x.com'' ''password2'') = Inr True \<and>
   fst (verify_password reference_bcrypt
          (snd (register_user reference_bcrypt demo_connection 7 ''s1'' ''b@x.com''
                  ''password2''))
          ''b@x.com'' ''password3'') = Inr False"
proof -
  have ok: "users_accepts (session (execute INSERT_users demo_connection))
      \<lparr>u_id = generate_id 7, u_email = ''b@x.com'',
        u_password = hash_password reference_bcrypt ''password2'' ''s1''\<rparr>"
    by (simp add: users_accepts_def execute_def demo_connection_def demo_database_def
        generate_id_def str_nat.simps digit_char_def)
  have r: "register_user reference_bcrypt demo_connection 7 ''s1'' ''b@x.com'' ''password2'' =
      (Inr (generate_id 7),
       snd (register_user reference_bcrypt demo_connection 7 ''s1'' ''b@x.com'' ''password2''))"
    using ok by (simp add: register_user_def Let_def)
  note t = verify_password_after_register_user [OF r]
  have d: "checkpw reference_bcrypt ''password3''
             (hashpw reference_bcrypt ''password2'' ''s1'') = Some False"
    by (simp add: reference_bcrypt_def reference_check_hash)
  show ?thesis
    by (rule conjI [OF t [THEN conjunct1, THEN mp, OF reference_accepts_own]
          t [THEN conjunct2, THEN conjunct2, THEN spec, THEN iffD2, OF d]])
qed

text \<open>
  The claim as stated fails for another password. With a library that reads the first
  72 bytes of a value, as \<^verbatim>\<open>bcrypt\<close> before version 5 does, a user registered with
  72 letters \<open>a\<close> and an \<open>x\<close> is verified with 72 letters \<open>a\<close> and a \<open>y\<close>: the answer is
  \<open>True\<close>. With a library that refuses a candidate of more than 72 bytes, as \<^verbatim>\<open>bcrypt\<close>
  from version 5 on does, a user registered with \<open>password2\<close> and verified with 73
  letters \<open>a\<close> gets no answer: \<open>ValueError\<close> leaves \<^verbatim>\<open>verify_password\<close>.
\<close>

theorem other_password_not_always_false:
  "fst (register_user truncating_bcrypt demo_connection 7 ''s1'' ''b@x.com''
          (replicate 72 (CHR ''a'') @ ''x'')) = Inr ''100007'' \<and>
   replicate 72 (CHR ''a'') @ ''y'' \<noteq> replicate 72 (CHR ''a'') @ ''x'' \<and>
   fst (verify_password truncating_bcrypt
          (snd (register_user truncating_bcrypt demo_connection 7 ''s1'' ''b@x.com''
                  (replicate 72 (CHR ''a'') @ ''x'')))
          ''b@x.com'' (replicate 72 (CHR ''a'') @ ''y'')) = Inr True \<and>
   fst (register_user strict_bcrypt demo_connection 7 ''s1'' ''b@x.com'' ''password2'') =
     Inr ''100007'' \<and>
   fst (verify_password strict_bcrypt
          (snd (register_user strict_bcrypt demo_connection 7 ''s1'' ''b@x.com''
                  ''password2''))
          ''b@x.com'' (replicate 73 (CHR ''a''))) = Inl ValueError"
  by (simp add: register_user_def verify_password_def users_accepts_def hash_password_def
      execute_def commit_def demo_connection_def demo_database_def generate_id_values Let_def
      truncating_bcrypt_def truncating_hashpw_def truncating_checkpw_def strict_bcrypt_def
      strict_checkpw_def reference_hashpw_def)



text \<open>
  Claim C9 (the code departs from it). When the store refuses the insert of
  \<^verbatim>\<open>create_team\<close>, the method raises \<open>UserMailExists\<close>: the error class \<^verbatim>\<open>register_user\<close>
  raises for a duplicate email, not an error class of its own. Nothing is written.
\<close>

theorem create_team_rejection_raises_UserMailExists:
  assumes "\<not> teams_accepts (session c)
             \<lparr>t_id = generate_id rnd, t_user_id = uid, t_name = name\<rparr>"
  shows "create_team c rnd uid name = (Inl UserMailExists, execute INSERT_teams c)"
  using assms by (simp add: create_team_def execute_def Let_def)

theorem create_team_rejection_raises_UserMailExists_witness:
  "create_team demo_connection 1 ''100000'' ''Team B'' =
     (Inl UserMailExists, execute INSERT_teams demo_connection) \<and>
   fst (register_user reference_bcrypt demo_connection 6 ''s1'' ''a@x.com'' ''password2'') =
     Inl UserMailExists"
proof -
  have h: "\<not> teams_accepts (session demo_connection)
             \<lparr>t_id = generate_id 1, t_user_id = ''100000'', t_name = ''Team B''\<rparr>"
    unfolding generate_id_1
    by (simp add: teams_accepts_def demo_connection_def demo_database_def)
  have e: "''a@x.com'' \<in> set (map u_email (users (session demo_connection)))"
    by (simp add: demo_connection_def demo_database_def)
  have r: "fst (register_user reference_bcrypt demo_connection 6 ''s1'' ''a@x.com''
                  ''password2'') = Inl UserMailExists"
    by (simp add: register_user_duplicate_email [OF e])
  show ?thesis
    by (rule conjI [OF create_team_rejection_raises_UserMailExists [OF h] r])
qed

text \<open>
  Claim C10. A registration request whose password has fewer than eight characters is
  answered with id \<open>-1\<close>, success false and password-acceptable false (email-unique
  stays true); no cookie is set and the connection is returned as it was received: no
  statement is executed and no row written.
\<close>

theorem short_password_rejected:
  assumes "length (reg_password request) < 8"
  shows "register B c rnd salt_password salt_cookie request =
           (Inr \<lparr>rr_id = ''-1'', rr_success = False, rr_email_unique = True,
                 rr_password_acceptable = False\<rparr>, [], c)"
  using assms by (simp add: register_def)

theorem short_password_rejected_witness:
  "register reference_bcrypt demo_connection 7 ''s1'' ''s2''
     \<lparr>reg_email = ''b@x.com'', reg_password = ''1234567''\<rparr> =
     (Inr \<lparr>rr_id = ''-1'', rr_success = False, rr_email_unique = True,
           rr_password_acceptable = False\<rparr>, [], demo_connection)"
  by (rule short_password_rejected) simp

end
